theory Spec2Isabelle
  imports Main "HOL-Library.Word" "HOL-Library.Signed_Division" "HOL-Library.Sublist"
begin

section \<open>The CUDA driver binding of source/nvidia/cuda/nvidia-cuda.cpp\<close>

text \<open>
  The translation unit has three functions: the constructor of
  \<^verbatim>\<open>streamfx::nvidia::cuda::cuda\<close>, which opens the driver library and binds
  its entry points through the \<^verbatim>\<open>P_CUDA_LOAD_SYMBOL*\<close> macros, the member
  \<^verbatim>\<open>version()\<close>, and the static accessor \<^verbatim>\<open>get()\<close> with its
  function-local \<^verbatim>\<open>weak_ptr\<close>.  What the file does to the outside (the library
  loader, the native entry points, the log) is recorded as a list of events in program
  order; exceptions are values of type \<open>error\<close>.
\<close>

subsection \<open>Values\<close>

text \<open>A native address; the null pointer is \<open>0\<close>, as \<^verbatim>\<open>if (!NAME)\<close> tests it.\<close>

type_synonym ptr = nat

text \<open>\<^verbatim>\<open>int32_t\<close>, read as two's complement with \<open>sint\<close>.\<close>

type_synonym int32 = "32 word"

text \<open>
  C++ division and remainder of \<^verbatim>\<open>int32_t\<close> truncate towards zero.  The divisors
  in this file are the constants 1000 and 10, so neither the division by zero nor the
  overflow of \<^verbatim>\<open>INT32_MIN / -1\<close> can occur.
\<close>

definition int32_div :: "int32 \<Rightarrow> int32 \<Rightarrow> int32" where
  "int32_div a b = word_of_int (sint a sdiv sint b)"

definition int32_mod :: "int32 \<Rightarrow> int32 \<Rightarrow> int32" where
  "int32_mod a b = word_of_int (sint a smod sint b)"

text \<open>
  The enumeration \<^verbatim>\<open>result\<close> is declared in nvidia-cuda.hpp.  The constructor only
  compares against \<^verbatim>\<open>result::SUCCESS\<close>; every other enumerator is \<open>FAILURE\<close>
  with its numeric value.
\<close>

datatype result = SUCCESS | FAILURE int

text \<open>
  What the constructor and \<^verbatim>\<open>version()\<close> can end in other than a normal return:
  the exception of \<^verbatim>\<open>streamfx::util::library::load\<close>, the
  \<^verbatim>\<open>std::runtime_error\<close> of the macros with its message, and a call through a
  member function pointer that is null or was never assigned (undefined behaviour in C++,
  a crash in practice).
\<close>

datatype error = Library_load_failed | Runtime_error string | Invalid_call string

datatype level = LOG_ERROR | LOG_WARNING | LOG_INFO | LOG_DEBUG

text \<open>
  The observable actions: a call of \<^verbatim>\<open>library::load\<close> with the file name, a call
  of \<^verbatim>\<open>_library->load_symbol\<close> with the string passed, a call through the
  \<^verbatim>\<open>cuDriverGetVersion\<close> pointer, a call through the \<^verbatim>\<open>cuInit\<close> pointer
  with its argument, and a log line (level, format string, arguments).
\<close>

datatype event =
    Library_load string
  | Load_symbol string
  | Call_cuDriverGetVersion ptr
  | Call_cuInit ptr "32 word"
  | Log level string "int list"

subsection \<open>The collaborators\<close>

text \<open>A loaded library is its \<^verbatim>\<open>load_symbol\<close>: the address of a name, or null.\<close>

type_synonym library = "string \<Rightarrow> ptr"

text \<open>
  The environment of one run.  \<open>library_load\<close> is
  \<^verbatim>\<open>streamfx::util::library::load\<close>, whose code is not in this file: \<open>None\<close> is
  its failure, which reaches the constructor as an exception.
  \<open>cuDriverGetVersion_native p v\<close> is the native code behind address \<open>p\<close> called
  with a pointer to an \<^verbatim>\<open>int32_t\<close> holding \<open>v\<close>: it gives the status and the
  content of that variable after the call.  \<open>cuInit_native p flags\<close> is the native code
  behind \<open>p\<close> called with \<open>flags\<close>.
\<close>

record env =
  library_load :: "string \<Rightarrow> library option"
  cuDriverGetVersion_native :: "ptr \<Rightarrow> int32 \<Rightarrow> result \<times> int32"
  cuInit_native :: "ptr \<Rightarrow> 32 word \<Rightarrow> result"

text \<open>
  The preprocessor symbols the file branches on: \<open>windows\<close> is
  \<^verbatim>\<open>defined(_WIN32) || defined(_WIN64)\<close>, \<open>win32\<close> is \<^verbatim>\<open>defined(WIN32)\<close>.
  The log macros are those of the build without \<^verbatim>\<open>_DEBUG\<close>.
\<close>

record config =
  windows :: bool
  win32 :: bool

definition ST_PREFIX :: string where
  "ST_PREFIX = ''<nvidia::cuda::cuda> ''"

definition ST_CUDA_NAME :: "config \<Rightarrow> string" where
  "ST_CUDA_NAME cfg = (if windows cfg then ''nvcuda.dll'' else ''libcuda.so.1'')"

text \<open>The conversion specifiers of \<^verbatim>\<open><cinttypes>\<close>, as on LP64.\<close>

definition PRIuPTR :: string where "PRIuPTR = ''lu''"
definition PRId32 :: string where "PRId32 = ''d''"

definition D_LOG_WARNING :: "string \<Rightarrow> int list \<Rightarrow> event" where
  "D_LOG_WARNING fmt args = Log LOG_WARNING (ST_PREFIX @ fmt) args"

definition D_LOG_INFO :: "string \<Rightarrow> int list \<Rightarrow> event" where
  "D_LOG_INFO fmt args = Log LOG_INFO (ST_PREFIX @ fmt) args"

definition D_LOG_DEBUG :: "string \<Rightarrow> int list \<Rightarrow> event" where
  "D_LOG_DEBUG fmt args = Log LOG_DEBUG (ST_PREFIX @ fmt) args"

subsection \<open>The symbol macros\<close>

text \<open>
  The object under construction: the member function pointers assigned so far, by member
  name, and the events so far.
\<close>

record ctor_state =
  members :: "string \<rightharpoonup> ptr"
  events :: "event list"

definition emit :: "event \<Rightarrow> ctor_state \<Rightarrow> ctor_state" where
  "emit e s = s\<lparr>events := events s @ [e]\<rparr>"

definition assign :: "string \<Rightarrow> ptr \<Rightarrow> ctor_state \<Rightarrow> ctor_state" where
  "assign NAME p s = s\<lparr>members := (members s)(NAME \<mapsto> p)\<rparr>"

definition apostrophe :: char where
  "apostrophe = CHR 0x27"

definition failed_to_load :: "config \<Rightarrow> string \<Rightarrow> string" where
  "failed_to_load cfg NAME =
     ''Failed to load '' @ [apostrophe] @ NAME @ [apostrophe] @ '' from '' @
     [apostrophe] @ ST_CUDA_NAME cfg @ [apostrophe] @ ''.''"

definition optional_failed :: "string \<Rightarrow> string" where
  "optional_failed NAME =
     ''Loading of optional symbol '' @ [apostrophe] @ NAME @ [apostrophe] @ '' failed.''"

datatype macro =
    P_CUDA_LOAD_SYMBOL
  | P_CUDA_LOAD_SYMBOL_OPT
  | P_CUDA_LOAD_SYMBOL_V2
  | P_CUDA_LOAD_SYMBOL_OPT_V2

text \<open>
  One macro invocation \<^verbatim>\<open>M(NAME)\<close>: the lookup, the assignment to the member
  \<^verbatim>\<open>NAME\<close>, then the null test, which throws or logs.
\<close>

fun expand :: "config \<Rightarrow> library \<Rightarrow> macro \<Rightarrow> string \<Rightarrow> ctor_state \<Rightarrow> error option \<times> ctor_state" where
  "expand cfg lib P_CUDA_LOAD_SYMBOL NAME s =
     (let p = lib NAME;
          s1 = assign NAME p (emit (Load_symbol NAME) s)
      in if p = 0 then (Some (Runtime_error (failed_to_load cfg NAME)), s1)
         else (None, s1))"
| "expand cfg lib P_CUDA_LOAD_SYMBOL_OPT NAME s =
     (let p = lib NAME;
          s1 = assign NAME p (emit (Load_symbol NAME) s)
      in if p = 0 then (None, emit (D_LOG_WARNING (optional_failed NAME) [0]) s1)
         else (None, s1))"
| "expand cfg lib P_CUDA_LOAD_SYMBOL_V2 NAME s =
     (let p = lib (NAME @ ''_v2'');
          s1 = assign NAME p (emit (Load_symbol (NAME @ ''_v2'')) s)
      in if p = 0 then (Some (Runtime_error (failed_to_load cfg NAME)), s1)
         else (None, s1))"
| "expand cfg lib P_CUDA_LOAD_SYMBOL_OPT_V2 NAME s =
     (let p = lib (NAME @ ''_v2'');
          s1 = assign NAME p (emit (Load_symbol (NAME @ ''_v2'')) s)
      in if p = 0 then (None, emit (D_LOG_WARNING (optional_failed NAME) [0]) s1)
         else (None, s1))"

text \<open>A block of macro invocations, in order; a throw leaves the block.\<close>

fun load_all :: "config \<Rightarrow> library \<Rightarrow> (macro \<times> string) list \<Rightarrow> ctor_state \<Rightarrow> error option \<times> ctor_state" where
  "load_all cfg lib [] s = (None, s)"
| "load_all cfg lib ((m, NAME) # rest) s =
     (case expand cfg lib m NAME s of
        (Some e, s1) \<Rightarrow> (Some e, s1)
      | (None, s1) \<Rightarrow> load_all cfg lib rest s1)"

subsection \<open>The constructor\<close>

text \<open>Block 1 of the constructor: the critical initialization functions.\<close>

definition critical_symbols :: "(macro \<times> string) list" where
  "critical_symbols =
    [(P_CUDA_LOAD_SYMBOL, ''cuInit''),
     (P_CUDA_LOAD_SYMBOL, ''cuDriverGetVersion'')]"

text \<open>Block 3: the remaining functions, the Direct3D group under \<^verbatim>\<open>#ifdef WIN32\<close>.\<close>

definition remaining_symbols :: "config \<Rightarrow> (macro \<times> string) list" where
  "remaining_symbols cfg =
    [(P_CUDA_LOAD_SYMBOL, ''cuDeviceGetName''),
     (P_CUDA_LOAD_SYMBOL, ''cuDeviceGetLuid''),
     (P_CUDA_LOAD_SYMBOL, ''cuDeviceGetUuid''),
     (P_CUDA_LOAD_SYMBOL, ''cuDevicePrimaryCtxRetain''),
     (P_CUDA_LOAD_SYMBOL_V2, ''cuDevicePrimaryCtxRelease''),
     (P_CUDA_LOAD_SYMBOL_OPT_V2, ''cuDevicePrimaryCtxSetFlags''),
     (P_CUDA_LOAD_SYMBOL_V2, ''cuCtxCreate''),
     (P_CUDA_LOAD_SYMBOL_V2, ''cuCtxDestroy''),
     (P_CUDA_LOAD_SYMBOL_V2, ''cuCtxPushCurrent''),
     (P_CUDA_LOAD_SYMBOL_V2, ''cuCtxPopCurrent''),
     (P_CUDA_LOAD_SYMBOL_OPT, ''cuCtxGetCurrent''),
     (P_CUDA_LOAD_SYMBOL_OPT, ''cuCtxSetCurrent''),
     (P_CUDA_LOAD_SYMBOL, ''cuCtxGetStreamPriorityRange''),
     (P_CUDA_LOAD_SYMBOL, ''cuCtxSynchronize''),
     (P_CUDA_LOAD_SYMBOL_V2, ''cuMemAlloc''),
     (P_CUDA_LOAD_SYMBOL_V2, ''cuMemAllocPitch''),
     (P_CUDA_LOAD_SYMBOL_V2, ''cuMemFree''),
     (P_CUDA_LOAD_SYMBOL, ''cuMemcpy''),
     (P_CUDA_LOAD_SYMBOL_V2, ''cuMemcpy2D''),
     (P_CUDA_LOAD_SYMBOL_V2, ''cuMemcpy2DAsync''),
     (P_CUDA_LOAD_SYMBOL_OPT_V2, ''cuArrayGetDescriptor''),
     (P_CUDA_LOAD_SYMBOL_OPT_V2, ''cuMemcpyAtoA''),
     (P_CUDA_LOAD_SYMBOL_OPT_V2, ''cuMemcpyAtoD''),
     (P_CUDA_LOAD_SYMBOL_OPT_V2, ''cuMemcpyAtoH''),
     (P_CUDA_LOAD_SYMBOL_OPT_V2, ''cuMemcpyAtoHAsync''),
     (P_CUDA_LOAD_SYMBOL_OPT_V2, ''cuMemcpyDtoA''),
     (P_CUDA_LOAD_SYMBOL_OPT_V2, ''cuMemcpyDtoD''),
     (P_CUDA_LOAD_SYMBOL_OPT_V2, ''cuMemcpyDtoH''),
     (P_CUDA_LOAD_SYMBOL_OPT_V2, ''cuMemcpyDtoHAsync''),
     (P_CUDA_LOAD_SYMBOL_OPT_V2, ''cuMemcpyHtoA''),
     (P_CUDA_LOAD_SYMBOL_OPT_V2, ''cuMemcpyHtoAAsync''),
     (P_CUDA_LOAD_SYMBOL_OPT_V2, ''cuMemcpyHtoD''),
     (P_CUDA_LOAD_SYMBOL_OPT_V2, ''cuMemcpyHtoDAsync''),
     (P_CUDA_LOAD_SYMBOL_OPT_V2, ''cuMemHostGetDevicePointer''),
     (P_CUDA_LOAD_SYMBOL_V2, ''cuMemsetD8''),
     (P_CUDA_LOAD_SYMBOL, ''cuMemsetD8Async''),
     (P_CUDA_LOAD_SYMBOL_OPT_V2, ''cuMemsetD16''),
     (P_CUDA_LOAD_SYMBOL_OPT, ''cuMemsetD16Async''),
     (P_CUDA_LOAD_SYMBOL_OPT_V2, ''cuMemsetD32''),
     (P_CUDA_LOAD_SYMBOL_OPT, ''cuMemsetD32Async''),
     (P_CUDA_LOAD_SYMBOL, ''cuStreamCreate''),
     (P_CUDA_LOAD_SYMBOL_V2, ''cuStreamDestroy''),
     (P_CUDA_LOAD_SYMBOL, ''cuStreamSynchronize''),
     (P_CUDA_LOAD_SYMBOL_OPT, ''cuStreamCreateWithPriority''),
     (P_CUDA_LOAD_SYMBOL_OPT, ''cuStreamGetPriority''),
     (P_CUDA_LOAD_SYMBOL, ''cuGraphicsMapResources''),
     (P_CUDA_LOAD_SYMBOL, ''cuGraphicsSubResourceGetMappedArray''),
     (P_CUDA_LOAD_SYMBOL, ''cuGraphicsUnmapResources''),
     (P_CUDA_LOAD_SYMBOL, ''cuGraphicsUnregisterResource'')]
    @ (if win32 cfg then
        [(P_CUDA_LOAD_SYMBOL, ''cuD3D10GetDevice''),
         (P_CUDA_LOAD_SYMBOL_OPT, ''cuGraphicsD3D10RegisterResource''),
         (P_CUDA_LOAD_SYMBOL, ''cuD3D11GetDevice''),
         (P_CUDA_LOAD_SYMBOL_OPT, ''cuGraphicsD3D11RegisterResource'')]
       else [])"

text \<open>
  A call through the member function pointer \<open>NAME\<close>: the address called, or the crash
  of calling through a pointer that is null or was never assigned.
\<close>

definition callee :: "(string \<rightharpoonup> ptr) \<Rightarrow> string \<Rightarrow> error + ptr" where
  "callee fs NAME =
     (case fs NAME of
        None \<Rightarrow> Inl (Invalid_call NAME)
      | Some p \<Rightarrow> if p = 0 then Inl (Invalid_call NAME) else Inr p)"

text \<open>
  Block 2: \<^verbatim>\<open>cuDriverGetVersion(&cuda_version)\<close> with \<^verbatim>\<open>cuda_version = 0\<close>, then
  the version line or the warning.
\<close>

definition version_format :: string where
  "version_format =
     ''Driver reported CUDA version: %'' @ PRId32 @ ''.%'' @ PRId32 @ ''.%'' @ PRId32"

definition log_version :: "env \<Rightarrow> ctor_state \<Rightarrow> error option \<times> ctor_state" where
  "log_version en s =
     (case callee (members s) ''cuDriverGetVersion'' of
        Inl e \<Rightarrow> (Some e, s)
      | Inr p \<Rightarrow>
          (case cuDriverGetVersion_native en p 0 of
             (r, cuda_version) \<Rightarrow>
               let s1 = emit (Call_cuDriverGetVersion p) s in
               if r = SUCCESS then
                 let major = int32_div cuda_version 1000;
                     minor = int32_div (int32_mod cuda_version 1000) 10;
                     patch = int32_mod cuda_version 10
                 in (None, emit (D_LOG_INFO version_format [sint major, sint minor, sint patch]) s1)
               else
                 (None, emit (D_LOG_WARNING ''Failed to query NVIDIA CUDA Driver for version.'' [0]) s1)))"

text \<open>The last statement of the constructor: \<^verbatim>\<open>cuInit(0)\<close>, its result dropped.\<close>

definition initialize :: "env \<Rightarrow> ctor_state \<Rightarrow> error option \<times> ctor_state" where
  "initialize en s =
     (case callee (members s) ''cuInit'' of
        Inl e \<Rightarrow> (Some e, s)
      | Inr p \<Rightarrow>
          (let r = cuInit_native en p 0
           in (None, emit (Call_cuInit p 0) s)))"

text \<open>
  A constructed object: the \<^verbatim>\<open>_library\<close> member and the member function pointers.
\<close>

record cuda =
  library :: library
  symbols :: "string \<rightharpoonup> ptr"

text \<open>
  The constructor, for an object at address \<open>this\<close>.  It gives the events of the run
  and either the exception that left it or the constructed object.
\<close>

definition cuda_ctor :: "config \<Rightarrow> env \<Rightarrow> ptr \<Rightarrow> event list \<times> (error + cuda)" where
  "cuda_ctor cfg en this =
     (let s0 = \<lparr>members = Map.empty,
                events = [D_LOG_DEBUG (''Initializing... (Addr: 0x%'' @ PRIuPTR @ '')'') [int this],
                          Library_load (ST_CUDA_NAME cfg)]\<rparr>
      in case library_load en (ST_CUDA_NAME cfg) of
           None \<Rightarrow> (events s0, Inl Library_load_failed)
         | Some lib \<Rightarrow>
             (case load_all cfg lib critical_symbols s0 of
                (Some e, s1) \<Rightarrow> (events s1, Inl e)
              | (None, s1) \<Rightarrow>
                  (case log_version en s1 of
                     (Some e, s2) \<Rightarrow> (events s2, Inl e)
                   | (None, s2) \<Rightarrow>
                       (case load_all cfg lib (remaining_symbols cfg) s2 of
                          (Some e, s3) \<Rightarrow> (events s3, Inl e)
                        | (None, s3) \<Rightarrow>
                            (case initialize en s3 of
                               (Some e, s4) \<Rightarrow> (events s4, Inl e)
                             | (None, s4) \<Rightarrow>
                                 (events s4, Inr \<lparr>library = lib, symbols = members s4\<rparr>))))))"

subsection \<open>version()\<close>

text \<open>
  \<^verbatim>\<open>int32_t v = 0; cuDriverGetVersion(&v); return v;\<close>  The status of the call is
  dropped.
\<close>

definition version :: "env \<Rightarrow> cuda \<Rightarrow> event list \<times> (error + int32)" where
  "version en h =
     (case callee (symbols h) ''cuDriverGetVersion'' of
        Inl e \<Rightarrow> ([], Inl e)
      | Inr p \<Rightarrow>
          (case cuDriverGetVersion_native en p 0 of
             (r, v) \<Rightarrow> ([Call_cuDriverGetVersion p], Inr v)))"

subsection \<open>get()\<close>

text \<open>
  The objects made by \<^verbatim>\<open>std::make_shared\<close>, each with its control block: the
  number of \<^verbatim>\<open>shared_ptr\<close>s that own it and the object, gone once that number
  reaches zero.  An address is the index of the allocation; addresses are not reused.
\<close>

record control_block =
  strong :: nat
  object :: "cuda option"

text \<open>
  The process: the allocations, the function-local static \<^verbatim>\<open>instance\<close> (a
  \<^verbatim>\<open>weak_ptr\<close>: empty, or the address it observes) and the events so far.  The
  mutex makes each call of \<^verbatim>\<open>get()\<close> one step.
\<close>

record world =
  heap :: "control_block list"
  instance_weak :: "nat option"
  trace :: "event list"

definition use_count :: "world \<Rightarrow> nat \<Rightarrow> nat" where
  "use_count w a = (if a < length (heap w) then strong (heap w ! a) else 0)"

definition expired :: "world \<Rightarrow> bool" where
  "expired w = (case instance_weak w of None \<Rightarrow> True | Some a \<Rightarrow> use_count w a = 0)"

text \<open>
  \<^verbatim>\<open>instance.lock()\<close>: a new \<^verbatim>\<open>shared_ptr\<close> to the observed object, which then
  has one owner more, or the empty \<^verbatim>\<open>shared_ptr\<close> when there is none.
\<close>

definition weak_lock :: "world \<Rightarrow> nat option \<times> world" where
  "weak_lock w =
     (case instance_weak w of
        None \<Rightarrow> (None, w)
      | Some a \<Rightarrow>
          if use_count w a = 0 then (None, w)
          else (Some a, w\<lparr>heap := (heap w)[a := (heap w ! a)\<lparr>strong := Suc (strong (heap w ! a))\<rparr>]\<rparr>))"

text \<open>
  The accessor.  It returns the \<^verbatim>\<open>shared_ptr\<close> (the address it points to, or
  \<open>None\<close> for an empty one), or it propagates the exception of the constructor, the
  memory of the object that was under construction being freed again.
\<close>

definition get :: "config \<Rightarrow> env \<Rightarrow> world \<Rightarrow> (error + nat option) \<times> world" where
  "get cfg en w =
     (if expired w then
        (let this = length (heap w) in
         case cuda_ctor cfg en this of
           (evs, Inl e) \<Rightarrow> (Inl e, w\<lparr>trace := trace w @ evs\<rparr>)
         | (evs, Inr obj) \<Rightarrow>
             (Inr (Some this),
              w\<lparr>heap := heap w @ [\<lparr>strong = 1, object = Some obj\<rparr>],
                instance_weak := Some this,
                trace := trace w @ evs\<rparr>))
      else
        (case weak_lock w of (p, w1) \<Rightarrow> (Inr p, w1)))"

text \<open>
  What a holder of a \<^verbatim>\<open>shared_ptr\<close> to the object at \<open>a\<close> can do with it: copy
  it, or drop it.  Dropping the last one runs the destructor, which logs.  Both need a
  live object: nobody holds a \<^verbatim>\<open>shared_ptr\<close> to a destroyed one.
\<close>

definition copy_ref :: "nat \<Rightarrow> world \<Rightarrow> world" where
  "copy_ref a w =
     (if 0 < use_count w a
      then w\<lparr>heap := (heap w)[a := (heap w ! a)\<lparr>strong := Suc (strong (heap w ! a))\<rparr>]\<rparr>
      else w)"

definition release :: "nat \<Rightarrow> world \<Rightarrow> world" where
  "release a w =
     (if 0 < use_count w a then
        (if strong (heap w ! a) = 1 then
           w\<lparr>heap := (heap w)[a := \<lparr>strong = 0, object = None\<rparr>],
             trace := trace w @ [D_LOG_DEBUG (''Finalizing... (Addr: 0x%'' @ PRIuPTR @ '')'') [int a]]\<rparr>
         else
           w\<lparr>heap := (heap w)[a := (heap w ! a)\<lparr>strong := strong (heap w ! a) - 1\<rparr>]\<rparr>)
      else w)"

datatype action = Get env | Copy nat | Release nat

fun step :: "config \<Rightarrow> action \<Rightarrow> world \<Rightarrow> world" where
  "step cfg (Get en) w = snd (get cfg en w)"
| "step cfg (Copy a) w = copy_ref a w"
| "step cfg (Release a) w = release a w"

fun run :: "config \<Rightarrow> action list \<Rightarrow> world \<Rightarrow> world" where
  "run cfg [] w = w"
| "run cfg (x # xs) w = run cfg xs (step cfg x w)"

definition process_start :: world where
  "process_start = \<lparr>heap = [], instance_weak = None, trace = []\<rparr>"

subsection \<open>Reading the macros and the table\<close>

text \<open>
  The four macros differ in two respects only: whether a null result throws, and whether
  the string looked up carries the suffix \<^verbatim>\<open>_v2\<close>.
\<close>

definition required :: "macro \<Rightarrow> bool" where
  "required m = (m = P_CUDA_LOAD_SYMBOL \<or> m = P_CUDA_LOAD_SYMBOL_V2)"

definition versioned :: "macro \<Rightarrow> bool" where
  "versioned m = (m = P_CUDA_LOAD_SYMBOL_V2 \<or> m = P_CUDA_LOAD_SYMBOL_OPT_V2)"

definition symbol_name :: "macro \<Rightarrow> string \<Rightarrow> string" where
  "symbol_name m NAME = (if versioned m then NAME @ ''_v2'' else NAME)"

text \<open>All macro invocations of the constructor, in program order.\<close>

definition constructor_table :: "config \<Rightarrow> (macro \<times> string) list" where
  "constructor_table cfg = critical_symbols @ remaining_symbols cfg"

text \<open>Every required entry of a block resolves in the library.\<close>

definition resolves :: "library \<Rightarrow> (macro \<times> string) list \<Rightarrow> bool" where
  "resolves lib es = list_all (\<lambda>(m, NAME). required m \<longrightarrow> lib (symbol_name m NAME) \<noteq> 0) es"

text \<open>The three components of what \<open>load_all\<close> computes, each on its own.\<close>

fun first_missing :: "config \<Rightarrow> library \<Rightarrow> (macro \<times> string) list \<Rightarrow> error option" where
  "first_missing cfg lib [] = None"
| "first_missing cfg lib ((m, NAME) # rest) =
     (if required m \<and> lib (symbol_name m NAME) = 0
      then Some (Runtime_error (failed_to_load cfg NAME))
      else first_missing cfg lib rest)"

fun load_events :: "library \<Rightarrow> (macro \<times> string) list \<Rightarrow> event list" where
  "load_events lib [] = []"
| "load_events lib ((m, NAME) # rest) =
     Load_symbol (symbol_name m NAME) #
     (if lib (symbol_name m NAME) = 0 then
        (if required m then []
         else D_LOG_WARNING (optional_failed NAME) [0] # load_events lib rest)
      else load_events lib rest)"

fun load_members :: "library \<Rightarrow> (macro \<times> string) list \<Rightarrow> (string \<rightharpoonup> ptr) \<Rightarrow> (string \<rightharpoonup> ptr)" where
  "load_members lib [] ms = ms"
| "load_members lib ((m, NAME) # rest) ms =
     (if required m \<and> lib (symbol_name m NAME) = 0
      then ms(NAME \<mapsto> lib (symbol_name m NAME))
      else load_members lib rest (ms(NAME \<mapsto> lib (symbol_name m NAME))))"

text \<open>The object a complete run of the constructor leaves behind.\<close>

definition driver_handle :: "config \<Rightarrow> library \<Rightarrow> cuda" where
  "driver_handle cfg lib =
     \<lparr>library = lib, symbols = load_members lib (constructor_table cfg) Map.empty\<rparr>"

text \<open>The events of block 2, given the address called.\<close>

definition version_events :: "env \<Rightarrow> ptr \<Rightarrow> event list" where
  "version_events en p =
     (case cuDriverGetVersion_native en p 0 of
        (r, v) \<Rightarrow>
          [Call_cuDriverGetVersion p,
           if r = SUCCESS
           then D_LOG_INFO version_format
                  [sint (int32_div v 1000), sint (int32_div (int32_mod v 1000) 10), sint (int32_mod v 10)]
           else D_LOG_WARNING ''Failed to query NVIDIA CUDA Driver for version.'' [0]])"

text \<open>An object is live while its control block still holds it.\<close>

definition live :: "world \<Rightarrow> nat \<Rightarrow> bool" where
  "live w a = (a < length (heap w) \<and> object (heap w ! a) \<noteq> None)"

text \<open>
  The state of the registry the accessor maintains: an object is held exactly as long as
  it is owned, and an owned object is the one the static \<^verbatim>\<open>instance\<close> observes.
\<close>

definition registry_ok :: "world \<Rightarrow> bool" where
  "registry_ok w =
     (\<forall>a < length (heap w).
        (object (heap w ! a) \<noteq> None \<longleftrightarrow> 0 < strong (heap w ! a)) \<and>
        (0 < strong (heap w ! a) \<longrightarrow> instance_weak w = Some a))"

subsection \<open>Auxiliary definitions\<close>

text \<open>The two events every run of the constructor starts with.\<close>

definition prologue :: "config \<Rightarrow> ptr \<Rightarrow> event list" where
  "prologue cfg this =
     [D_LOG_DEBUG (''Initializing... (Addr: 0x%'' @ PRIuPTR @ '')'') [int this],
      Library_load (ST_CUDA_NAME cfg)]"

text \<open>Concrete libraries, builds and drivers on which the theorems are instantiated.\<close>

definition all_present :: library where
  "all_present = (\<lambda>NAME. 4096)"

definition linux :: config where
  "linux = \<lparr>windows = False, win32 = False\<rparr>"

definition missing :: "string \<Rightarrow> library" where
  "missing x = (\<lambda>NAME. if NAME = x then 0 else 4096)"

definition missing_two :: "string \<Rightarrow> string \<Rightarrow> library" where
  "missing_two x y = (\<lambda>NAME. if NAME = x \<or> NAME = y then 0 else 4096)"

definition driver_with :: "library \<Rightarrow> env" where
  "driver_with lib =
     \<lparr>library_load = (\<lambda>file. if file = ''libcuda.so.1'' then Some lib else None),
      cuDriverGetVersion_native = (\<lambda>p v. (SUCCESS, 11020)),
      cuInit_native = (\<lambda>p flags. SUCCESS)\<rparr>"

definition query_fails :: env where
  "query_fails = (driver_with all_present)\<lparr>cuDriverGetVersion_native := (\<lambda>p v. (FAILURE 999, 11020))\<rparr>"

definition query_untouched :: env where
  "query_untouched = (driver_with all_present)\<lparr>cuDriverGetVersion_native := (\<lambda>p v. (FAILURE 999, v))\<rparr>"

definition no_library :: env where
  "no_library = (driver_with all_present)\<lparr>library_load := (\<lambda>file. None)\<rparr>"

section \<open>What the constructor computes\<close>

subsection \<open>The macros and the blocks\<close>

lemma expand_eq:
  "expand cfg lib m NAME s =
     (let p = lib (symbol_name m NAME);
          s1 = assign NAME p (emit (Load_symbol (symbol_name m NAME)) s)
      in if p = 0 then
           (if required m then (Some (Runtime_error (failed_to_load cfg NAME)), s1)
            else (None, emit (D_LOG_WARNING (optional_failed NAME) [0]) s1))
         else (None, s1))"
  by (cases m) (simp_all add: symbol_name_def versioned_def required_def Let_def)

lemma load_all_fst: "fst (load_all cfg lib es s) = first_missing cfg lib es"
  by (induction es arbitrary: s) (auto simp: expand_eq Let_def split: prod.splits option.splits)

lemma load_all_events: "events (snd (load_all cfg lib es s)) = events s @ load_events lib es"
  by (induction es arbitrary: s) (auto simp: expand_eq Let_def emit_def assign_def split: prod.splits option.splits)

lemma load_all_members: "members (snd (load_all cfg lib es s)) = load_members lib es (members s)"
  by (induction es arbitrary: s) (auto simp: expand_eq Let_def emit_def assign_def split: prod.splits option.splits)

lemma first_missing_None: "first_missing cfg lib es = None \<longleftrightarrow> resolves lib es"
  by (induction es) (auto simp: resolves_def split: if_splits)

lemma first_missing_Some:
  "first_missing cfg lib es = Some e \<Longrightarrow>
     \<exists>pre m NAME post. es = pre @ (m, NAME) # post \<and> resolves lib pre \<and> required m \<and>
        lib (symbol_name m NAME) = 0 \<and> e = Runtime_error (failed_to_load cfg NAME)"
proof (induction es)
  case Nil
  then show ?case by simp
next
  case (Cons x es)
  obtain m NAME where x: "x = (m, NAME)" by (cases x)
  show ?case
  proof (cases "required m \<and> lib (symbol_name m NAME) = 0")
    case True
    with Cons.prems x have "e = Runtime_error (failed_to_load cfg NAME)" by simp
    with True x have "x # es = [] @ (m, NAME) # es \<and> resolves lib [] \<and> required m \<and>
        lib (symbol_name m NAME) = 0 \<and> e = Runtime_error (failed_to_load cfg NAME)"
      by (simp add: resolves_def)
    then show ?thesis by blast
  next
    case False
    with Cons.prems x have "first_missing cfg lib es = Some e" by auto
    from Cons.IH [OF this] obtain pre m' N' post where
      h: "es = pre @ (m', N') # post" "resolves lib pre" "required m'"
        "lib (symbol_name m' N') = 0" "e = Runtime_error (failed_to_load cfg N')" by blast
    from h False x have "x # es = (x # pre) @ (m', N') # post \<and> resolves lib (x # pre) \<and> required m' \<and>
        lib (symbol_name m' N') = 0 \<and> e = Runtime_error (failed_to_load cfg N')"
      by (auto simp: resolves_def)
    then show ?thesis by blast
  qed
qed

lemma load_events_resolves:
  "resolves lib es \<Longrightarrow>
   load_events lib es =
     concat (map (\<lambda>(m, NAME). Load_symbol (symbol_name m NAME) #
        (if lib (symbol_name m NAME) = 0 then [D_LOG_WARNING (optional_failed NAME) [0]] else [])) es)"
  by (induction es) (auto simp: resolves_def)

lemma load_events_append:
  "resolves lib pre \<Longrightarrow> load_events lib (pre @ es) = load_events lib pre @ load_events lib es"
  by (induction pre) (auto simp: resolves_def)

lemma load_members_other:
  "NAME \<notin> snd ` set es \<Longrightarrow> load_members lib es ms NAME = ms NAME"
  by (induction es arbitrary: ms) (auto split: if_splits)

lemma load_members_entry:
  "distinct (map snd es) \<Longrightarrow> (m, NAME) \<in> set es \<Longrightarrow> resolves lib es \<Longrightarrow>
   load_members lib es ms NAME = Some (lib (symbol_name m NAME))"
proof (induction es arbitrary: ms)
  case Nil
  then show ?case by simp
next
  case (Cons x es)
  obtain m' N' where x: "x = (m', N')" by (cases x)
  from Cons.prems(3) x have r: "resolves lib es" and nx: "\<not> (required m' \<and> lib (symbol_name m' N') = 0)"
    by (auto simp: resolves_def)
  show ?case
  proof (cases "(m, NAME) = x")
    case True
    with Cons.prems(1) x have "NAME \<notin> snd ` set es" by auto
    with True x nx show ?thesis by (auto simp: load_members_other)
  next
    case False
    with Cons.prems(2) have "(m, NAME) \<in> set es" by simp
    with Cons.prems(1) Cons.IH r x nx show ?thesis by auto
  qed
qed

subsection \<open>The table\<close>

lemma names_distinct: "distinct (map snd (constructor_table cfg))"
  by (cases "win32 cfg") (simp_all add: constructor_table_def critical_symbols_def remaining_symbols_def)

lemma names_plain: "(m, NAME) \<in> set (constructor_table cfg) \<Longrightarrow> CHR ''_'' \<notin> set NAME"
  by (cases "win32 cfg") (auto simp add: constructor_table_def critical_symbols_def remaining_symbols_def)

lemma first_missing_append:
  "first_missing cfg lib (xs @ ys) =
     (case first_missing cfg lib xs of Some e \<Rightarrow> Some e | None \<Rightarrow> first_missing cfg lib ys)"
  by (induction xs) auto

lemma load_members_append:
  "resolves lib xs \<Longrightarrow> load_members lib (xs @ ys) ms = load_members lib ys (load_members lib xs ms)"
  by (induction xs arbitrary: ms) (auto simp: resolves_def)

lemma resolves_append: "resolves lib (xs @ ys) \<longleftrightarrow> resolves lib xs \<and> resolves lib ys"
  by (simp add: resolves_def)

lemma load_all_eq:
  "load_all cfg lib es s =
     (first_missing cfg lib es,
      \<lparr>members = load_members lib es (members s), events = events s @ load_events lib es\<rparr>)"
proof -
  have "members (snd (load_all cfg lib es s)) = load_members lib es (members s)"
    and "events (snd (load_all cfg lib es s)) = events s @ load_events lib es"
    and "fst (load_all cfg lib es s) = first_missing cfg lib es"
    by (rule load_all_members, rule load_all_events, rule load_all_fst)
  then show ?thesis
    by (cases "load_all cfg lib es s") (auto)
qed

subsection \<open>The runs of the constructor\<close>

lemma critical_resolved:
  assumes "resolves lib critical_symbols"
  shows "load_members lib critical_symbols Map.empty ''cuDriverGetVersion'' = Some (lib ''cuDriverGetVersion'')"
    and "load_members lib critical_symbols Map.empty ''cuInit'' = Some (lib ''cuInit'')"
    and "lib ''cuDriverGetVersion'' \<noteq> 0" and "lib ''cuInit'' \<noteq> 0"
  using assms
  by (simp_all add: critical_symbols_def resolves_def required_def symbol_name_def versioned_def)

lemma cuInit_not_remaining: "''cuInit'' \<notin> snd ` set (remaining_symbols cfg)"
  by (cases "win32 cfg") (simp_all add: remaining_symbols_def)

lemma log_version_eq:
  assumes "members s ''cuDriverGetVersion'' = Some p" and "p \<noteq> 0"
  shows "log_version en s = (None, s\<lparr>events := events s @ version_events en p\<rparr>)"
  using assms
  by (simp add: log_version_def callee_def version_events_def emit_def Let_def split: prod.splits)

lemma initialize_eq:
  assumes "members s ''cuInit'' = Some p" and "p \<noteq> 0"
  shows "initialize en s = (None, s\<lparr>events := events s @ [Call_cuInit p 0]\<rparr>)"
  using assms by (simp add: initialize_def callee_def emit_def Let_def)

lemma ctor_no_library:
  assumes "library_load en (ST_CUDA_NAME cfg) = None"
  shows "cuda_ctor cfg en this = (prologue cfg this, Inl Library_load_failed)"
  using assms by (simp add: cuda_ctor_def prologue_def)

lemma ctor_critical_missing:
  assumes "library_load en (ST_CUDA_NAME cfg) = Some lib"
    and "first_missing cfg lib critical_symbols = Some e"
  shows "cuda_ctor cfg en this = (prologue cfg this @ load_events lib critical_symbols, Inl e)"
  using assms by (simp add: cuda_ctor_def prologue_def load_all_eq)

lemma ctor_remaining_missing:
  assumes "library_load en (ST_CUDA_NAME cfg) = Some lib"
    and "resolves lib critical_symbols"
    and "first_missing cfg lib (remaining_symbols cfg) = Some e"
  shows "cuda_ctor cfg en this =
     (prologue cfg this @ load_events lib critical_symbols @
        version_events en (lib ''cuDriverGetVersion'') @ load_events lib (remaining_symbols cfg), Inl e)"
proof -
  have fm: "first_missing cfg lib critical_symbols = None"
    using assms(2) by (simp add: first_missing_None)
  show ?thesis
    using assms(1,3) fm critical_resolved [OF assms(2)]
    by (simp add: cuda_ctor_def prologue_def load_all_eq log_version_eq)
qed

lemma ctor_ready:
  assumes "library_load en (ST_CUDA_NAME cfg) = Some lib"
    and "resolves lib (constructor_table cfg)"
  shows "cuda_ctor cfg en this =
     (prologue cfg this @ load_events lib critical_symbols @
        version_events en (lib ''cuDriverGetVersion'') @ load_events lib (remaining_symbols cfg) @
        [Call_cuInit (lib ''cuInit'') 0],
      Inr (driver_handle cfg lib))"
proof -
  from assms(2) have rc: "resolves lib critical_symbols" and rr: "resolves lib (remaining_symbols cfg)"
    by (simp_all add: constructor_table_def resolves_append)
  have fm: "first_missing cfg lib critical_symbols = None" "first_missing cfg lib (remaining_symbols cfg) = None"
    using rc rr by (simp_all add: first_missing_None)
  have init: "load_members lib (remaining_symbols cfg) (load_members lib critical_symbols Map.empty) ''cuInit''
      = Some (lib ''cuInit'')"
    using critical_resolved(2) [OF rc] by (simp add: load_members_other [OF cuInit_not_remaining])
  show ?thesis
    using assms(1) fm critical_resolved [OF rc] init
    by (simp add: cuda_ctor_def prologue_def load_all_eq log_version_eq initialize_eq
        driver_handle_def constructor_table_def load_members_append [OF rc])
qed

lemma ctor_snd:
  "snd (cuda_ctor cfg en this) =
     (case library_load en (ST_CUDA_NAME cfg) of
        None \<Rightarrow> Inl Library_load_failed
      | Some lib \<Rightarrow>
          (case first_missing cfg lib (constructor_table cfg) of
             Some e \<Rightarrow> Inl e
           | None \<Rightarrow> Inr (driver_handle cfg lib)))"
proof (cases "library_load en (ST_CUDA_NAME cfg)")
  case None
  then show ?thesis by (simp add: ctor_no_library)
next
  case (Some lib)
  show ?thesis
  proof (cases "first_missing cfg lib critical_symbols")
    case (Some e)
    with \<open>library_load en (ST_CUDA_NAME cfg) = Some lib\<close> show ?thesis
      by (simp add: ctor_critical_missing constructor_table_def first_missing_append)
  next
    case None
    then have rc: "resolves lib critical_symbols" by (simp add: first_missing_None)
    show ?thesis
    proof (cases "first_missing cfg lib (remaining_symbols cfg)")
      case (Some e)
      with \<open>library_load en (ST_CUDA_NAME cfg) = Some lib\<close> None rc show ?thesis
        by (simp add: ctor_remaining_missing constructor_table_def first_missing_append)
    next
      case None
      then have "resolves lib (constructor_table cfg)"
        using rc by (simp add: first_missing_None constructor_table_def resolves_append)
      with \<open>library_load en (ST_CUDA_NAME cfg) = Some lib\<close> None
        \<open>first_missing cfg lib critical_symbols = None\<close> show ?thesis
        by (simp add: ctor_ready constructor_table_def first_missing_append)
    qed
  qed
qed

lemma ctor_fst:
  assumes "library_load en (ST_CUDA_NAME cfg) = Some lib"
  shows "fst (cuda_ctor cfg en this) =
     prologue cfg this @ load_events lib critical_symbols @
       (if resolves lib critical_symbols then
          version_events en (lib ''cuDriverGetVersion'') @ load_events lib (remaining_symbols cfg) @
            (if resolves lib (remaining_symbols cfg) then [Call_cuInit (lib ''cuInit'') 0] else [])
        else [])"
proof (cases "resolves lib critical_symbols")
  case False
  then obtain e where "first_missing cfg lib critical_symbols = Some e"
    using first_missing_None [of cfg lib critical_symbols] by (cases "first_missing cfg lib critical_symbols") auto
  with assms False show ?thesis by (simp add: ctor_critical_missing)
next
  case rc: True
  show ?thesis
  proof (cases "resolves lib (remaining_symbols cfg)")
    case False
    then obtain e where "first_missing cfg lib (remaining_symbols cfg) = Some e"
      using first_missing_None [of cfg lib "remaining_symbols cfg"]
      by (cases "first_missing cfg lib (remaining_symbols cfg)") auto
    with assms rc False show ?thesis by (simp add: ctor_remaining_missing)
  next
    case True
    with rc have "resolves lib (constructor_table cfg)"
      by (simp add: constructor_table_def resolves_append)
    with assms rc True show ?thesis by (simp add: ctor_ready)
  qed
qed

lemma critical_events:
  assumes "resolves lib critical_symbols"
  shows "load_events lib critical_symbols = [Load_symbol ''cuInit'', Load_symbol ''cuDriverGetVersion'']"
  using critical_resolved(3,4) [OF assms]
  by (simp add: critical_symbols_def symbol_name_def versioned_def)

lemma symbol_names_distinct:
  "distinct (map (\<lambda>(m, NAME). symbol_name m NAME) (constructor_table cfg))"
  by (cases "win32 cfg")
    (simp_all add: constructor_table_def critical_symbols_def remaining_symbols_def
      symbol_name_def versioned_def)

lemma load_events_append_if:
  "load_events lib (xs @ ys) = load_events lib xs @ (if resolves lib xs then load_events lib ys else [])"
  by (induction xs) (auto simp: resolves_def split: if_splits)

lemma lookup_in_load_events:
  "Load_symbol x \<in> set (load_events lib es) \<Longrightarrow> \<exists>(m, NAME) \<in> set es. x = symbol_name m NAME"
  by (induction es) (auto simp: D_LOG_WARNING_def split: if_splits)

lemma load_events_all:
  "resolves lib es \<Longrightarrow> (m, NAME) \<in> set es \<Longrightarrow> Load_symbol (symbol_name m NAME) \<in> set (load_events lib es)"
  by (induction es) (auto simp: resolves_def)

lemma load_events_warning:
  "resolves lib es \<Longrightarrow> (m, NAME) \<in> set es \<Longrightarrow> \<not> required m \<Longrightarrow> lib (symbol_name m NAME) = 0 \<Longrightarrow>
   D_LOG_WARNING (optional_failed NAME) [0] \<in> set (load_events lib es)"
  by (induction es) (auto simp: resolves_def)

lemma first_missing_is_looked_up:
  assumes "distinct (map (\<lambda>(m, NAME). symbol_name m NAME) es)"
    and "(m, NAME) \<in> set es" and "required m" and "lib (symbol_name m NAME) = 0"
    and "Load_symbol (symbol_name m NAME) \<in> set (load_events lib es)"
  shows "first_missing cfg lib es = Some (Runtime_error (failed_to_load cfg NAME))"
  using assms
proof (induction es)
  case Nil
  then show ?case by simp
next
  case (Cons x es)
  obtain m' N' where x: "x = (m', N')" by (cases x)
  show ?case
  proof (cases "(m, NAME) = x")
    case True
    with x Cons.prems(3,4) show ?thesis by simp
  next
    case False
    with Cons.prems(2) have mem: "(m, NAME) \<in> set es" by simp
    from Cons.prems(1) x mem have ne: "symbol_name m NAME \<noteq> symbol_name m' N'"
      by (auto simp: image_iff) 
    from Cons.prems(1) have d: "distinct (map (\<lambda>(m, NAME). symbol_name m NAME) es)" by simp
    show ?thesis
    proof (cases "required m' \<and> lib (symbol_name m' N') = 0")
      case True
      with Cons.prems(5) x ne show ?thesis by simp
    next
      case False
      with Cons.prems(5) x ne have "Load_symbol (symbol_name m NAME) \<in> set (load_events lib es)"
        by (auto simp: D_LOG_WARNING_def split: if_splits)
      from Cons.IH [OF d mem Cons.prems(3,4) this] False x show ?thesis by auto
    qed
  qed
qed

lemma first_missing_exists:
  "(m, NAME) \<in> set es \<Longrightarrow> required m \<Longrightarrow> lib (symbol_name m NAME) = 0 \<Longrightarrow>
   \<exists>N. first_missing cfg lib es = Some (Runtime_error (failed_to_load cfg N))"
  by (induction es) auto

lemma ctor_lookups:
  assumes "library_load en (ST_CUDA_NAME cfg) = Some lib"
  shows "Load_symbol x \<in> set (fst (cuda_ctor cfg en this)) \<longleftrightarrow>
         Load_symbol x \<in> set (load_events lib (constructor_table cfg))"
  unfolding ctor_fst [OF assms] constructor_table_def load_events_append_if
  by (auto simp: prologue_def version_events_def D_LOG_DEBUG_def D_LOG_INFO_def D_LOG_WARNING_def
      split: prod.splits if_splits)

lemma ctor_Inr:
  assumes "snd (cuda_ctor cfg en this) = Inr h"
  shows "\<exists>lib. library_load en (ST_CUDA_NAME cfg) = Some lib \<and> resolves lib (constructor_table cfg) \<and>
           h = driver_handle cfg lib"
  using assms first_missing_None unfolding ctor_snd
  by (auto split: option.splits)

lemma handle_entry:
  assumes "resolves lib (constructor_table cfg)" and "(m, NAME) \<in> set (constructor_table cfg)"
  shows "symbols (driver_handle cfg lib) NAME = Some (lib (symbol_name m NAME))"
  using load_members_entry [OF names_distinct assms(2) assms(1)] by (simp add: driver_handle_def)

lemma handle_other:
  assumes "NAME \<notin> snd ` set (constructor_table cfg)"
  shows "symbols (driver_handle cfg lib) NAME = None"
  using load_members_other [OF assms] by (simp add: driver_handle_def)

subsection \<open>Concrete runs\<close>

lemma driver_with_load: "library_load (driver_with lib) (ST_CUDA_NAME linux) = Some lib"
  by (simp add: driver_with_def ST_CUDA_NAME_def linux_def)

lemma all_present_resolves: "resolves all_present es"
  by (simp add: resolves_def all_present_def list_all_iff split: prod.splits)

lemma missing_optional_resolves:
  "\<forall>(m, NAME) \<in> set es. required m \<longrightarrow> symbol_name m NAME \<noteq> x \<Longrightarrow> resolves (missing x) es"
  by (auto simp: resolves_def missing_def list_all_iff)


lemma in_table_linux:
  "(P_CUDA_LOAD_SYMBOL_V2, ''cuMemAlloc'') \<in> set (constructor_table linux)"
  "(P_CUDA_LOAD_SYMBOL_OPT, ''cuCtxGetCurrent'') \<in> set (constructor_table linux)"
  "(P_CUDA_LOAD_SYMBOL_OPT_V2, ''cuMemsetD16'') \<in> set (constructor_table linux)"
  by (simp_all add: constructor_table_def remaining_symbols_def)

lemma cuMemAlloc_looked_up:
  "Load_symbol ''cuMemAlloc_v2'' \<in> set (load_events (missing ''cuMemAlloc_v2'') (constructor_table linux))"
  by (simp add: constructor_table_def critical_symbols_def remaining_symbols_def linux_def
      missing_def symbol_name_def versioned_def required_def)


section \<open>The version line\<close>

lemma sint32_range: "- 2147483648 \<le> sint (v :: int32)" "sint (v :: int32) < 2147483648"
  using sint_ge [of v] sint_lt [of v] by simp_all

lemma sint32_of_int: "- 2147483648 \<le> k \<Longrightarrow> k < 2147483648 \<Longrightarrow> sint (word_of_int k :: int32) = k"
  by (simp add: sint_sbintrunc' signed_take_bit_int_eq_self_iff)

lemma sdiv_pos:
  fixes a b :: int
  assumes "0 < b"
  shows "a sdiv b = (if 0 \<le> a then a div b else - ((- a) div b))"
proof (cases "0 \<le> a")
  case True
  then have "a = 0 \<or> 0 < a" by linarith
  then show ?thesis using assms True by (auto simp: signed_divide_int_def)
next
  case False
  then have "a < 0" by simp
  then show ?thesis using assms by (simp add: signed_divide_int_def)
qed

lemma smod_pos:
  fixes a b :: int
  assumes "0 < b"
  shows "a smod b = (if 0 \<le> a then a mod b else - ((- a) mod b))"
proof (cases "0 \<le> a")
  case True
  then have "a = 0 \<or> 0 < a" by linarith
  then show ?thesis using assms True by (auto simp: signed_modulo_int_def)
next
  case False
  then have "a < 0" by simp
  then show ?thesis using assms by (simp add: signed_modulo_int_def)
qed

lemma div_pos_bounds:
  fixes c b :: int
  assumes "0 \<le> c" "0 < b"
  shows "0 \<le> c div b" "c div b \<le> c"
proof -
  show "0 \<le> c div b" using assms by (simp add: pos_imp_zdiv_nonneg_iff)
  show "c div b \<le> c"
  proof (cases "c = 0")
    case True then show ?thesis by simp
  next
    case False
    with assms(1) have "0 < c" by simp
    then show ?thesis by (rule int_div_le_self)
  qed
qed

lemma sdiv_bounds:
  fixes a b :: int
  assumes "- 2147483648 \<le> a" "a < 2147483648" "0 < b"
  shows "- 2147483648 \<le> a sdiv b" "a sdiv b < 2147483648"
proof -
  have "- 2147483648 \<le> a sdiv b \<and> a sdiv b < 2147483648"
  proof (cases "0 \<le> a")
    case True
    from div_pos_bounds [OF True assms(3)] assms(2) True show ?thesis
      unfolding sdiv_pos [OF assms(3)] by simp
  next
    case False
    then have "0 \<le> - a" by simp
    from div_pos_bounds [OF this assms(3)] assms(1) False show ?thesis
      unfolding sdiv_pos [OF assms(3)] by simp
  qed
  then show "- 2147483648 \<le> a sdiv b" "a sdiv b < 2147483648" by simp_all
qed

lemma smod_bounds:
  fixes a b :: int
  assumes "0 < b"
  shows "- b < a smod b" "a smod b < b"
proof -
  have m: "0 \<le> a mod b" "a mod b < b" "0 \<le> (- a) mod b" "(- a) mod b < b"
    using assms by simp_all
  have "- b < a smod b \<and> a smod b < b"
  proof (cases "0 \<le> a")
    case True
    then have "a smod b = a mod b" by (simp add: smod_pos [OF assms])
    with m(1,2) assms show ?thesis by linarith
  next
    case False
    then have "a smod b = - ((- a) mod b)" by (simp add: smod_pos [OF assms])
    with m(3,4) assms show ?thesis by linarith
  qed
  then show "- b < a smod b" "a smod b < b" by simp_all
qed

lemma sdiv_smod_nonneg:
  fixes a b :: int
  assumes "0 \<le> a" "0 < b"
  shows "a sdiv b = a div b" "a smod b = a mod b" "0 \<le> a mod b"
  using assms by (simp_all add: sdiv_pos smod_pos)

lemma sint_int32_div:
  assumes "0 < sint b"
  shows "sint (int32_div a b) = sint a sdiv sint b"
  unfolding int32_div_def
proof (rule sint32_of_int)
  show "- 2147483648 \<le> sint a sdiv sint b"
    by (rule sdiv_bounds(1) [OF sint32_range(1) sint32_range(2) assms])
  show "sint a sdiv sint b < 2147483648"
    by (rule sdiv_bounds(2) [OF sint32_range(1) sint32_range(2) assms])
qed

lemma sint_int32_mod:
  assumes "0 < sint b"
  shows "sint (int32_mod a b) = sint a smod sint b"
  unfolding int32_mod_def
proof (rule sint32_of_int)
  from smod_bounds [OF assms, of "sint a"] sint32_range [of b]
  show "- 2147483648 \<le> sint a smod sint b" "sint a smod sint b < 2147483648" by linarith+
qed

lemma decode_major: "sint (int32_div v 1000) = sint v sdiv 1000"
  using sint_int32_div [of 1000 v] by simp

lemma decode_minor: "sint (int32_div (int32_mod v 1000) 10) = (sint v smod 1000) sdiv 10"
  using sint_int32_div [of 10 "int32_mod v 1000"] sint_int32_mod [of 1000 v] by simp

lemma decode_patch: "sint (int32_mod v 10) = sint v smod 10"
  using sint_int32_mod [of 10 v] by simp

text \<open>
  Claim C7.  When the version query of block 2 succeeds with the value \<open>v\<close>, the
  constructor logs the three numbers \<open>v / 1000\<close>, \<open>(v % 1000) / 10\<close> and
  \<open>v % 10\<close> of C++ integer arithmetic (\<open>sdiv\<close> and \<open>smod\<close> truncate towards
  zero; for \<open>v \<ge> 0\<close> they are \<open>div\<close> and \<open>mod\<close>).  None of the three
  leaves the range of \<^verbatim>\<open>int32_t\<close>.  The witness is \<open>v = 11020\<close>, logged as 11, 2, 0.
\<close>

theorem version_decoding:
  assumes "library_load en (ST_CUDA_NAME cfg) = Some lib"
    and "resolves lib critical_symbols"
    and "cuDriverGetVersion_native en (lib ''cuDriverGetVersion'') 0 = (SUCCESS, v)"
  shows "\<exists>major minor patch rest.
      fst (cuda_ctor cfg en this) =
        prologue cfg this @
        [Load_symbol ''cuInit'', Load_symbol ''cuDriverGetVersion'',
         Call_cuDriverGetVersion (lib ''cuDriverGetVersion''),
         D_LOG_INFO version_format [major, minor, patch]] @ rest \<and>
      major = sint v sdiv 1000 \<and> minor = (sint v smod 1000) sdiv 10 \<and> patch = sint v smod 10 \<and>
      (0 \<le> sint v \<longrightarrow>
         major = sint v div 1000 \<and> minor = (sint v mod 1000) div 10 \<and> patch = sint v mod 10)"
proof -
  have ve: "version_events en (lib ''cuDriverGetVersion'') =
      [Call_cuDriverGetVersion (lib ''cuDriverGetVersion''),
       D_LOG_INFO version_format [sint v sdiv 1000, (sint v smod 1000) sdiv 10, sint v smod 10]]"
    using assms(3) by (simp add: version_events_def decode_major decode_minor decode_patch)
  have nn: "0 \<le> sint v \<longrightarrow> sint v sdiv 1000 = sint v div 1000 \<and>
      (sint v smod 1000) sdiv 10 = (sint v mod 1000) div 10 \<and> sint v smod 10 = sint v mod 10"
  proof
    assume p: "0 \<le> sint v"
    have "sint v sdiv 1000 = sint v div 1000" by (rule sdiv_smod_nonneg(1) [OF p]) simp
    moreover have "sint v smod 1000 = sint v mod 1000" by (rule sdiv_smod_nonneg(2) [OF p]) simp
    moreover have "(sint v mod 1000) sdiv 10 = (sint v mod 1000) div 10"
      by (rule sdiv_smod_nonneg(1)) simp_all
    moreover have "sint v smod 10 = sint v mod 10" by (rule sdiv_smod_nonneg(2) [OF p]) simp
    ultimately show "sint v sdiv 1000 = sint v div 1000 \<and>
      (sint v smod 1000) sdiv 10 = (sint v mod 1000) div 10 \<and> sint v smod 10 = sint v mod 10"
      by simp
  qed
  have "fst (cuda_ctor cfg en this) =
      prologue cfg this @
      [Load_symbol ''cuInit'', Load_symbol ''cuDriverGetVersion'',
       Call_cuDriverGetVersion (lib ''cuDriverGetVersion''),
       D_LOG_INFO version_format [sint v sdiv 1000, (sint v smod 1000) sdiv 10, sint v smod 10]] @
      (load_events lib (remaining_symbols cfg) @
       (if resolves lib (remaining_symbols cfg) then [Call_cuInit (lib ''cuInit'') 0] else []))"
    unfolding ctor_fst [OF assms(1)] critical_events [OF assms(2)] ve using assms(2) by simp
  with nn show ?thesis by blast
qed

theorem version_decoding_witness:
  "\<exists>rest. fst (cuda_ctor linux (driver_with all_present) 0) =
      prologue linux 0 @
      [Load_symbol ''cuInit'', Load_symbol ''cuDriverGetVersion'', Call_cuDriverGetVersion 4096,
       D_LOG_INFO version_format [11, 2, 0]] @ rest"
proof -
  have a: "library_load (driver_with all_present) (ST_CUDA_NAME linux) = Some all_present"
    by (simp add: driver_with_def ST_CUDA_NAME_def linux_def)
  have b: "resolves all_present critical_symbols"
    by (simp add: resolves_def critical_symbols_def all_present_def)
  have c: "cuDriverGetVersion_native (driver_with all_present) (all_present ''cuDriverGetVersion'') 0 = (SUCCESS, 11020)"
    by (simp add: driver_with_def)
  have d: "sint (11020 :: int32) = 11020" by simp
  have e: "(0::int) \<le> 11020 \<and> (11020::int) div 1000 = 11 \<and> (11020::int) mod 1000 div 10 = 2
      \<and> (11020::int) mod 10 = 0" by simp
  from version_decoding [OF a b c, of 0] obtain major minor patch rest where
    h: "fst (cuda_ctor linux (driver_with all_present) 0) =
        prologue linux 0 @
        [Load_symbol ''cuInit'', Load_symbol ''cuDriverGetVersion'',
         Call_cuDriverGetVersion (all_present ''cuDriverGetVersion''),
         D_LOG_INFO version_format [major, minor, patch]] @ rest"
      "0 \<le> sint (11020 :: int32) \<longrightarrow>
         major = sint (11020 :: int32) div 1000 \<and> minor = (sint (11020 :: int32) mod 1000) div 10
         \<and> patch = sint (11020 :: int32) mod 10"
    by blast
  from h(2) e have "major = 11" "minor = 2" "patch = 0" unfolding d by simp_all
  with h(1) show ?thesis by (simp add: all_present_def)
qed

section \<open>Required symbols\<close>

text \<open>
  Claim C2.  Let the library open.  If a required entry of the table (exact name or
  versioned) does not resolve, the constructor ends in the \<^verbatim>\<open>std::runtime_error\<close>
  of a required entry, whatever the optional entries do; and if the lookup of that entry was
  made in this run, the message is \<^verbatim>\<open>Failed to load '<NAME>' from '<file>'.\<close> with
  the member name of that very entry and the library file name.  Whenever the constructor
  returns an object, every required member of it is non-null.
\<close>

theorem required_symbol_missing:
  assumes "library_load en (ST_CUDA_NAME cfg) = Some lib"
  shows "(\<forall>(m, NAME) \<in> set (constructor_table cfg).
            required m \<and> lib (symbol_name m NAME) = 0 \<longrightarrow>
              (\<exists>N. snd (cuda_ctor cfg en this) =
                 Inl (Runtime_error (''Failed to load '' @ [apostrophe] @ N @ [apostrophe] @
                   '' from '' @ [apostrophe] @ ST_CUDA_NAME cfg @ [apostrophe] @ ''.''))) \<and>
              (Load_symbol (symbol_name m NAME) \<in> set (fst (cuda_ctor cfg en this)) \<longrightarrow>
                 snd (cuda_ctor cfg en this) =
                   Inl (Runtime_error (''Failed to load '' @ [apostrophe] @ NAME @ [apostrophe] @
                     '' from '' @ [apostrophe] @ ST_CUDA_NAME cfg @ [apostrophe] @ ''.'')))) \<and>
         (\<forall>h. snd (cuda_ctor cfg en this) = Inr h \<longrightarrow>
            (\<forall>(m, NAME) \<in> set (constructor_table cfg).
               required m \<longrightarrow> (\<exists>p. symbols h NAME = Some p \<and> p \<noteq> 0)))"
proof (intro conjI ballI allI impI)
  fix e assume e: "e \<in> set (constructor_table cfg)"
  obtain m NAME where mn: "e = (m, NAME)" by (cases e)
  show "case e of (m, NAME) \<Rightarrow>
      required m \<and> lib (symbol_name m NAME) = 0 \<longrightarrow>
        (\<exists>N. snd (cuda_ctor cfg en this) =
           Inl (Runtime_error (''Failed to load '' @ [apostrophe] @ N @ [apostrophe] @
             '' from '' @ [apostrophe] @ ST_CUDA_NAME cfg @ [apostrophe] @ ''.''))) \<and>
        (Load_symbol (symbol_name m NAME) \<in> set (fst (cuda_ctor cfg en this)) \<longrightarrow>
           snd (cuda_ctor cfg en this) =
             Inl (Runtime_error (''Failed to load '' @ [apostrophe] @ NAME @ [apostrophe] @
               '' from '' @ [apostrophe] @ ST_CUDA_NAME cfg @ [apostrophe] @ ''.'')))"
    unfolding mn prod.case
  proof (intro impI conjI)
    assume a: "required m \<and> lib (symbol_name m NAME) = 0"
    with e mn first_missing_exists [of m NAME "constructor_table cfg" lib cfg]
    obtain N where "first_missing cfg lib (constructor_table cfg) = Some (Runtime_error (failed_to_load cfg N))"
      by auto
    with assms have "snd (cuda_ctor cfg en this) = Inl (Runtime_error (failed_to_load cfg N))"
      by (simp add: ctor_snd)
    then show "\<exists>N. snd (cuda_ctor cfg en this) =
           Inl (Runtime_error (''Failed to load '' @ [apostrophe] @ N @ [apostrophe] @
             '' from '' @ [apostrophe] @ ST_CUDA_NAME cfg @ [apostrophe] @ ''.''))"
      unfolding failed_to_load_def by blast
  next
    assume a: "required m \<and> lib (symbol_name m NAME) = 0"
      and l: "Load_symbol (symbol_name m NAME) \<in> set (fst (cuda_ctor cfg en this))"
    from l have "Load_symbol (symbol_name m NAME) \<in> set (load_events lib (constructor_table cfg))"
      by (simp add: ctor_lookups [OF assms])
    with first_missing_is_looked_up [OF symbol_names_distinct, of m NAME cfg lib cfg] e mn a
    have "first_missing cfg lib (constructor_table cfg) = Some (Runtime_error (failed_to_load cfg NAME))"
      by simp
    with assms have "snd (cuda_ctor cfg en this) = Inl (Runtime_error (failed_to_load cfg NAME))"
      by (simp add: ctor_snd)
    then show "snd (cuda_ctor cfg en this) =
             Inl (Runtime_error (''Failed to load '' @ [apostrophe] @ NAME @ [apostrophe] @
               '' from '' @ [apostrophe] @ ST_CUDA_NAME cfg @ [apostrophe] @ ''.''))"
      unfolding failed_to_load_def by simp
  qed
next
  fix h e assume h: "snd (cuda_ctor cfg en this) = Inr h" and e: "e \<in> set (constructor_table cfg)"
  obtain m NAME where mn: "e = (m, NAME)" by (cases e)
  from ctor_Inr [OF h] assms have r: "resolves lib (constructor_table cfg)" and hd: "h = driver_handle cfg lib"
    by auto
  show "case e of (m, NAME) \<Rightarrow> required m \<longrightarrow> (\<exists>p. symbols h NAME = Some p \<and> p \<noteq> 0)"
    unfolding mn prod.case
  proof
    assume "required m"
    with r e mn have "lib (symbol_name m NAME) \<noteq> 0" by (auto simp: resolves_def list_all_iff)
    with handle_entry [OF r, of m NAME] e mn hd show "\<exists>p. symbols h NAME = Some p \<and> p \<noteq> 0" by simp
  qed
qed

theorem required_symbol_missing_witness:
  "snd (cuda_ctor linux (driver_with (missing ''cuMemAlloc_v2'')) 0) =
     Inl (Runtime_error (''Failed to load '' @ [apostrophe] @ ''cuMemAlloc'' @ [apostrophe] @
        '' from '' @ [apostrophe] @ ''libcuda.so.1'' @ [apostrophe] @ ''.'')) \<and>
   (\<exists>h p. snd (cuda_ctor linux (driver_with all_present) 0) = Inr h \<and>
      symbols h ''cuMemAlloc'' = Some p \<and> p \<noteq> 0)"
proof
  let ?en = "driver_with (missing ''cuMemAlloc_v2'')"
  have l: "Load_symbol (symbol_name P_CUDA_LOAD_SYMBOL_V2 ''cuMemAlloc'') \<in> set (fst (cuda_ctor linux ?en 0))"
    using cuMemAlloc_looked_up by (simp add: ctor_lookups [OF driver_with_load] symbol_name_def versioned_def)
  have z: "required P_CUDA_LOAD_SYMBOL_V2 \<and> missing ''cuMemAlloc_v2'' (symbol_name P_CUDA_LOAD_SYMBOL_V2 ''cuMemAlloc'') = 0"
    by (simp add: required_def missing_def symbol_name_def versioned_def)
  from required_symbol_missing [OF driver_with_load, of "missing ''cuMemAlloc_v2''" 0]
  have "\<forall>(m, NAME) \<in> set (constructor_table linux).
            required m \<and> missing ''cuMemAlloc_v2'' (symbol_name m NAME) = 0 \<longrightarrow>
              (Load_symbol (symbol_name m NAME) \<in> set (fst (cuda_ctor linux ?en 0)) \<longrightarrow>
                 snd (cuda_ctor linux ?en 0) =
                   Inl (Runtime_error (''Failed to load '' @ [apostrophe] @ NAME @ [apostrophe] @
                     '' from '' @ [apostrophe] @ ST_CUDA_NAME linux @ [apostrophe] @ ''.'')))"
    by fast
  from bspec [OF this in_table_linux(1)] z l
  show "snd (cuda_ctor linux ?en 0) =
     Inl (Runtime_error (''Failed to load '' @ [apostrophe] @ ''cuMemAlloc'' @ [apostrophe] @
        '' from '' @ [apostrophe] @ ''libcuda.so.1'' @ [apostrophe] @ ''.''))"
    by (simp add: ST_CUDA_NAME_def linux_def)
next
  let ?en = "driver_with all_present"
  have r: "snd (cuda_ctor linux ?en 0) = Inr (driver_handle linux all_present)"
    by (simp add: ctor_ready [OF driver_with_load all_present_resolves])
  from required_symbol_missing [OF driver_with_load, of all_present 0]
  have "\<forall>h. snd (cuda_ctor linux ?en 0) = Inr h \<longrightarrow>
            (\<forall>(m, NAME) \<in> set (constructor_table linux).
               required m \<longrightarrow> (\<exists>p. symbols h NAME = Some p \<and> p \<noteq> 0))"
    by fast
  with r have "\<forall>(m, NAME) \<in> set (constructor_table linux).
               required m \<longrightarrow> (\<exists>p. symbols (driver_handle linux all_present) NAME = Some p \<and> p \<noteq> 0)"
    by blast
  from bspec [OF this in_table_linux(1)]
  have "\<exists>p. symbols (driver_handle linux all_present) ''cuMemAlloc'' = Some p \<and> p \<noteq> 0"
    by (simp add: required_def)
  with r show "\<exists>h p. snd (cuda_ctor linux ?en 0) = Inr h \<and> symbols h ''cuMemAlloc'' = Some p \<and> p \<noteq> 0"
    by blast
qed

section \<open>Optional symbols\<close>

lemma optional_missing_resolves: "resolves (missing ''cuCtxGetCurrent'') (constructor_table linux)"
  by (rule missing_optional_resolves)
    (simp add: constructor_table_def critical_symbols_def remaining_symbols_def linux_def
      symbol_name_def versioned_def required_def)

lemma expand_optional_missing:
  assumes "\<not> required m" and "lib (symbol_name m NAME) = 0"
  shows "fst (expand cfg lib m NAME s) = None"
    and "members (snd (expand cfg lib m NAME s)) = (members s)(NAME \<mapsto> 0)"
    and "events (snd (expand cfg lib m NAME s)) =
           events s @ [Load_symbol (symbol_name m NAME), D_LOG_WARNING (optional_failed NAME) [0]]"
  using assms by (simp_all add: expand_eq Let_def emit_def assign_def)

lemma looked_up_prefix_resolves:
  assumes "distinct (map (\<lambda>(m, NAME). symbol_name m NAME) (pre @ (m, NAME) # rest))"
    and "Load_symbol (symbol_name m NAME) \<in> set (load_events lib (pre @ (m, NAME) # rest))"
  shows "resolves lib pre"
proof (rule ccontr)
  assume n: "\<not> resolves lib pre"
  with assms(2) have "Load_symbol (symbol_name m NAME) \<in> set (load_events lib pre)"
    by (simp add: load_events_append_if)
  from lookup_in_load_events [OF this] obtain m' N' where
    e: "(m', N') \<in> set pre" and x: "symbol_name m NAME = symbol_name m' N'" by auto
  from e have "symbol_name m' N' \<in> (\<lambda>(m, NAME). symbol_name m NAME) ` set pre" by force
  with assms(1) x show False by auto
qed

lemma looked_up_optional:
  assumes "distinct (map (\<lambda>(m, NAME). symbol_name m NAME) (pre @ (m, NAME) # rest))"
    and "Load_symbol (symbol_name m NAME) \<in> set (load_events lib (pre @ (m, NAME) # rest))"
    and "\<not> required m"
  shows "load_events lib (pre @ (m, NAME) # rest) =
           load_events lib pre @ Load_symbol (symbol_name m NAME) #
           (if lib (symbol_name m NAME) = 0 then [D_LOG_WARNING (optional_failed NAME) [0]] else []) @
           load_events lib rest"
  using looked_up_prefix_resolves [OF assms(1,2)] assms(3)
  by (simp add: load_events_append_if)

lemma ctor_load_events:
  assumes "library_load en (ST_CUDA_NAME cfg) = Some lib"
  shows "set (load_events lib (constructor_table cfg)) \<subseteq> set (fst (cuda_ctor cfg en this))"
  unfolding ctor_fst [OF assms] constructor_table_def load_events_append_if by auto

lemma ctor_Inl:
  assumes "snd (cuda_ctor cfg en this) = Inl e" and "library_load en (ST_CUDA_NAME cfg) = Some lib"
  shows "\<exists>(m, NAME) \<in> set (constructor_table cfg).
           required m \<and> lib (symbol_name m NAME) = 0 \<and> e = Runtime_error (failed_to_load cfg NAME)"
proof -
  from assms have "first_missing cfg lib (constructor_table cfg) = Some e"
    by (simp add: ctor_snd split: option.splits)
  from first_missing_Some [OF this] obtain pre m NAME post where
    "constructor_table cfg = pre @ (m, NAME) # post" "required m" "lib (symbol_name m NAME) = 0"
    "e = Runtime_error (failed_to_load cfg NAME)" by blast
  moreover from this(1) have "(m, NAME) \<in> set (constructor_table cfg)" by simp
  ultimately show ?thesis by blast
qed

lemma optional_missing_ready:
  assumes "library_load en (ST_CUDA_NAME cfg) = Some lib"
    and "resolves lib (constructor_table cfg)"
  shows "\<exists>h. snd (cuda_ctor cfg en this) = Inr h \<and> library h = lib \<and>
           (\<forall>(m, NAME) \<in> set (constructor_table cfg).
              Load_symbol (symbol_name m NAME) \<in> set (fst (cuda_ctor cfg en this)) \<and>
              (\<not> required m \<and> lib (symbol_name m NAME) = 0 \<longrightarrow>
                 symbols h NAME = Some 0 \<and>
                 Log LOG_WARNING
                   (ST_PREFIX @ ''Loading of optional symbol '' @ [apostrophe] @ NAME @ [apostrophe] @ '' failed.'')
                   [0] \<in> set (fst (cuda_ctor cfg en this))))"
proof (intro exI conjI ballI)
  show "snd (cuda_ctor cfg en this) = Inr (driver_handle cfg lib)"
    by (simp add: ctor_ready [OF assms])
  show "library (driver_handle cfg lib) = lib" by (simp add: driver_handle_def)
  fix e assume e: "e \<in> set (constructor_table cfg)"
  obtain m NAME where mn: "e = (m, NAME)" by (cases e)
  from assms(2) have rc: "resolves lib critical_symbols" and rr: "resolves lib (remaining_symbols cfg)"
    by (simp_all add: constructor_table_def resolves_append)
  have ev: "set (load_events lib (constructor_table cfg)) \<subseteq> set (fst (cuda_ctor cfg en this))"
    unfolding ctor_fst [OF assms(1)] constructor_table_def load_events_append_if using rc rr by auto
  have l: "Load_symbol (symbol_name m NAME) \<in> set (fst (cuda_ctor cfg en this))"
    using load_events_all [OF assms(2), of m NAME] e mn ev by auto
  have w: "\<not> required m \<and> lib (symbol_name m NAME) = 0 \<longrightarrow>
       symbols (driver_handle cfg lib) NAME = Some 0 \<and>
       Log LOG_WARNING
         (ST_PREFIX @ ''Loading of optional symbol '' @ [apostrophe] @ NAME @ [apostrophe] @ '' failed.'')
         [0] \<in> set (fst (cuda_ctor cfg en this))"
  proof
    assume a: "\<not> required m \<and> lib (symbol_name m NAME) = 0"
    from handle_entry [OF assms(2), of m NAME] e mn a
    have "symbols (driver_handle cfg lib) NAME = Some 0" by simp
    moreover from load_events_warning [OF assms(2), of m NAME] e mn a ev
    have "D_LOG_WARNING (optional_failed NAME) [0] \<in> set (fst (cuda_ctor cfg en this))" by auto
    ultimately show "symbols (driver_handle cfg lib) NAME = Some 0 \<and>
       Log LOG_WARNING
         (ST_PREFIX @ ''Loading of optional symbol '' @ [apostrophe] @ NAME @ [apostrophe] @ '' failed.'')
         [0] \<in> set (fst (cuda_ctor cfg en this))"
      by (simp add: D_LOG_WARNING_def optional_failed_def)
  qed
  from l w show "case e of (m, NAME) \<Rightarrow>
      Load_symbol (symbol_name m NAME) \<in> set (fst (cuda_ctor cfg en this)) \<and>
      (\<not> required m \<and> lib (symbol_name m NAME) = 0 \<longrightarrow>
         symbols (driver_handle cfg lib) NAME = Some 0 \<and>
         Log LOG_WARNING
           (ST_PREFIX @ ''Loading of optional symbol '' @ [apostrophe] @ NAME @ [apostrophe] @ '' failed.'')
           [0] \<in> set (fst (cuda_ctor cfg en this)))"
    unfolding mn by simp
qed

lemma optional_missing_run:
  assumes "library_load en (ST_CUDA_NAME cfg) = Some lib"
    and "(m, NAME) \<in> set (constructor_table cfg)"
    and "\<not> required m" and "lib (symbol_name m NAME) = 0"
    and "Load_symbol (symbol_name m NAME) \<in> set (fst (cuda_ctor cfg en this))"
  shows "D_LOG_WARNING (optional_failed NAME) [0] \<in> set (fst (cuda_ctor cfg en this))"
    and "\<forall>pre m' N' post.
           constructor_table cfg = pre @ (m, NAME) # (m', N') # post \<longrightarrow>
           Load_symbol (symbol_name m' N') \<in> set (fst (cuda_ctor cfg en this))"
proof -
  from assms(5) have l: "Load_symbol (symbol_name m NAME) \<in> set (load_events lib (constructor_table cfg))"
    by (simp add: ctor_lookups [OF assms(1)])
  from split_list [OF assms(2)] obtain pre rest where
    t: "constructor_table cfg = pre @ (m, NAME) # rest" by blast
  from symbol_names_distinct [of cfg] l
  have "load_events lib (pre @ (m, NAME) # rest) =
           load_events lib pre @ Load_symbol (symbol_name m NAME) #
           (if lib (symbol_name m NAME) = 0 then [D_LOG_WARNING (optional_failed NAME) [0]] else []) @
           load_events lib rest"
    unfolding t by (rule looked_up_optional) (rule assms(3))
  with assms(4) t have "D_LOG_WARNING (optional_failed NAME) [0] \<in> set (load_events lib (constructor_table cfg))"
    by simp
  with ctor_load_events [OF assms(1), of this]
  show "D_LOG_WARNING (optional_failed NAME) [0] \<in> set (fst (cuda_ctor cfg en this))" by blast
  show "\<forall>pre m' N' post.
           constructor_table cfg = pre @ (m, NAME) # (m', N') # post \<longrightarrow>
           Load_symbol (symbol_name m' N') \<in> set (fst (cuda_ctor cfg en this))"
  proof (intro allI impI)
    fix pre m' N' post
    assume s: "constructor_table cfg = pre @ (m, NAME) # (m', N') # post"
    from symbol_names_distinct [of cfg] l
    have "load_events lib (pre @ (m, NAME) # (m', N') # post) =
           load_events lib pre @ Load_symbol (symbol_name m NAME) #
           (if lib (symbol_name m NAME) = 0 then [D_LOG_WARNING (optional_failed NAME) [0]] else []) @
           load_events lib ((m', N') # post)"
      unfolding s by (rule looked_up_optional) (rule assms(3))
    then have "Load_symbol (symbol_name m' N') \<in> set (load_events lib (constructor_table cfg))"
      unfolding s by simp
    with ctor_load_events [OF assms(1), of this]
    show "Load_symbol (symbol_name m' N') \<in> set (fst (cuda_ctor cfg en this))" by blast
  qed
qed

lemma two_missing_load: 
  "first_missing linux (missing_two ''cuCtxGetCurrent'' ''cuMemAlloc_v2'') (constructor_table linux) =
     Some (Runtime_error (failed_to_load linux ''cuMemAlloc''))"
  by (simp add: constructor_table_def critical_symbols_def remaining_symbols_def linux_def
      missing_two_def symbol_name_def versioned_def required_def)

lemma two_missing_looked_up:
  "Load_symbol ''cuCtxGetCurrent''
     \<in> set (load_events (missing_two ''cuCtxGetCurrent'' ''cuMemAlloc_v2'') (constructor_table linux))"
  by (simp add: constructor_table_def critical_symbols_def remaining_symbols_def linux_def
      missing_two_def symbol_name_def versioned_def required_def)

lemma table_split_linux:
  "\<exists>pre post. constructor_table linux =
     pre @ (P_CUDA_LOAD_SYMBOL_OPT, ''cuCtxGetCurrent'') # (P_CUDA_LOAD_SYMBOL_OPT, ''cuCtxSetCurrent'') # post"
proof -
  have "constructor_table linux =
     (critical_symbols @
      [(P_CUDA_LOAD_SYMBOL, ''cuDeviceGetName''),
       (P_CUDA_LOAD_SYMBOL, ''cuDeviceGetLuid''),
       (P_CUDA_LOAD_SYMBOL, ''cuDeviceGetUuid''),
       (P_CUDA_LOAD_SYMBOL, ''cuDevicePrimaryCtxRetain''),
       (P_CUDA_LOAD_SYMBOL_V2, ''cuDevicePrimaryCtxRelease''),
       (P_CUDA_LOAD_SYMBOL_OPT_V2, ''cuDevicePrimaryCtxSetFlags''),
       (P_CUDA_LOAD_SYMBOL_V2, ''cuCtxCreate''),
       (P_CUDA_LOAD_SYMBOL_V2, ''cuCtxDestroy''),
       (P_CUDA_LOAD_SYMBOL_V2, ''cuCtxPushCurrent''),
       (P_CUDA_LOAD_SYMBOL_V2, ''cuCtxPopCurrent'')]) @
     (P_CUDA_LOAD_SYMBOL_OPT, ''cuCtxGetCurrent'') # (P_CUDA_LOAD_SYMBOL_OPT, ''cuCtxSetCurrent'') #
     drop 12 (remaining_symbols linux)"
    by (simp add: constructor_table_def remaining_symbols_def linux_def)
  then show ?thesis by blast
qed

text \<open>
  Claim C3.  Let the library open.  An optional macro (exact name or versioned) whose
  lookup returns null does not throw: it stores null in the member and logs the warning
  \<^verbatim>\<open>Loading of optional symbol '<NAME>' failed.\<close> with the member name.  In any run
  of the constructor, also one that fails later, where the lookup of such an entry of the
  table was made, that warning is in the log and the entry that follows it in the table is
  looked up.  A run that fails does so on a required entry that did not resolve, never on
  an optional one.  If every required entry resolves, the constructor returns an object;
  every entry of the table is looked up; and each optional entry that did not resolve has
  a null member in the object and its warning in the log.
\<close>

theorem optional_symbol_missing:
  assumes "library_load en (ST_CUDA_NAME cfg) = Some lib"
  shows "(\<forall>(m, NAME) \<in> set (constructor_table cfg).
            \<not> required m \<and> lib (symbol_name m NAME) = 0 \<longrightarrow>
              (\<forall>s. fst (expand cfg lib m NAME s) = None \<and>
                   members (snd (expand cfg lib m NAME s)) = (members s)(NAME \<mapsto> 0) \<and>
                   events (snd (expand cfg lib m NAME s)) =
                     events s @
                     [Load_symbol (symbol_name m NAME),
                      Log LOG_WARNING
                        (ST_PREFIX @ ''Loading of optional symbol '' @ [apostrophe] @ NAME @ [apostrophe] @ '' failed.'')
                        [0]]) \<and>
              (Load_symbol (symbol_name m NAME) \<in> set (fst (cuda_ctor cfg en this)) \<longrightarrow>
                 Log LOG_WARNING
                   (ST_PREFIX @ ''Loading of optional symbol '' @ [apostrophe] @ NAME @ [apostrophe] @ '' failed.'')
                   [0] \<in> set (fst (cuda_ctor cfg en this)) \<and>
                 (\<forall>pre m' N' post.
                    constructor_table cfg = pre @ (m, NAME) # (m', N') # post \<longrightarrow>
                    Load_symbol (symbol_name m' N') \<in> set (fst (cuda_ctor cfg en this))))) \<and>
         (\<forall>e. snd (cuda_ctor cfg en this) = Inl e \<longrightarrow>
            (\<exists>(m, NAME) \<in> set (constructor_table cfg).
               required m \<and> lib (symbol_name m NAME) = 0 \<and>
               e = Runtime_error (''Failed to load '' @ [apostrophe] @ NAME @ [apostrophe] @
                     '' from '' @ [apostrophe] @ ST_CUDA_NAME cfg @ [apostrophe] @ ''.''))) \<and>
         (resolves lib (constructor_table cfg) \<longrightarrow>
            (\<exists>h. snd (cuda_ctor cfg en this) = Inr h \<and> library h = lib \<and>
               (\<forall>(m, NAME) \<in> set (constructor_table cfg).
                  Load_symbol (symbol_name m NAME) \<in> set (fst (cuda_ctor cfg en this)) \<and>
                  (\<not> required m \<and> lib (symbol_name m NAME) = 0 \<longrightarrow>
                     symbols h NAME = Some 0 \<and>
                     Log LOG_WARNING
                       (ST_PREFIX @ ''Loading of optional symbol '' @ [apostrophe] @ NAME @ [apostrophe] @ '' failed.'')
                       [0] \<in> set (fst (cuda_ctor cfg en this))))))"
proof (intro conjI)
  show "\<forall>(m, NAME) \<in> set (constructor_table cfg).
            \<not> required m \<and> lib (symbol_name m NAME) = 0 \<longrightarrow>
              (\<forall>s. fst (expand cfg lib m NAME s) = None \<and>
                   members (snd (expand cfg lib m NAME s)) = (members s)(NAME \<mapsto> 0) \<and>
                   events (snd (expand cfg lib m NAME s)) =
                     events s @
                     [Load_symbol (symbol_name m NAME),
                      Log LOG_WARNING
                        (ST_PREFIX @ ''Loading of optional symbol '' @ [apostrophe] @ NAME @ [apostrophe] @ '' failed.'')
                        [0]]) \<and>
              (Load_symbol (symbol_name m NAME) \<in> set (fst (cuda_ctor cfg en this)) \<longrightarrow>
                 Log LOG_WARNING
                   (ST_PREFIX @ ''Loading of optional symbol '' @ [apostrophe] @ NAME @ [apostrophe] @ '' failed.'')
                   [0] \<in> set (fst (cuda_ctor cfg en this)) \<and>
                 (\<forall>pre m' N' post.
                    constructor_table cfg = pre @ (m, NAME) # (m', N') # post \<longrightarrow>
                    Load_symbol (symbol_name m' N') \<in> set (fst (cuda_ctor cfg en this))))"
  proof (intro ballI)
    fix x assume x: "x \<in> set (constructor_table cfg)"
    obtain m NAME where mn: "x = (m, NAME)" by (cases x)
    have w: "D_LOG_WARNING (optional_failed NAME) [0] =
        Log LOG_WARNING
          (ST_PREFIX @ ''Loading of optional symbol '' @ [apostrophe] @ NAME @ [apostrophe] @ '' failed.'') [0]"
      by (simp add: D_LOG_WARNING_def optional_failed_def)
    have "\<not> required m \<and> lib (symbol_name m NAME) = 0 \<longrightarrow>
              (\<forall>s. fst (expand cfg lib m NAME s) = None \<and>
                   members (snd (expand cfg lib m NAME s)) = (members s)(NAME \<mapsto> 0) \<and>
                   events (snd (expand cfg lib m NAME s)) =
                     events s @
                     [Load_symbol (symbol_name m NAME), D_LOG_WARNING (optional_failed NAME) [0]]) \<and>
              (Load_symbol (symbol_name m NAME) \<in> set (fst (cuda_ctor cfg en this)) \<longrightarrow>
                 D_LOG_WARNING (optional_failed NAME) [0] \<in> set (fst (cuda_ctor cfg en this)) \<and>
                 (\<forall>pre m' N' post.
                    constructor_table cfg = pre @ (m, NAME) # (m', N') # post \<longrightarrow>
                    Load_symbol (symbol_name m' N') \<in> set (fst (cuda_ctor cfg en this))))"
    proof (intro impI conjI allI)
      fix s assume a: "\<not> required m \<and> lib (symbol_name m NAME) = 0"
      then have r: "\<not> required m" and z: "lib (symbol_name m NAME) = 0" by simp_all
      show "fst (expand cfg lib m NAME s) = None" by (rule expand_optional_missing(1) [where lib = lib, OF r z])
      show "members (snd (expand cfg lib m NAME s)) = (members s)(NAME \<mapsto> 0)"
        by (rule expand_optional_missing(2) [where lib = lib, OF r z])
      show "events (snd (expand cfg lib m NAME s)) =
          events s @ [Load_symbol (symbol_name m NAME), D_LOG_WARNING (optional_failed NAME) [0]]"
        by (rule expand_optional_missing(3) [where lib = lib, OF r z])
    next
      assume a: "\<not> required m \<and> lib (symbol_name m NAME) = 0"
        and l: "Load_symbol (symbol_name m NAME) \<in> set (fst (cuda_ctor cfg en this))"
      from a have r: "\<not> required m" and z: "lib (symbol_name m NAME) = 0" by simp_all
      from x mn have e: "(m, NAME) \<in> set (constructor_table cfg)" by simp
      show "D_LOG_WARNING (optional_failed NAME) [0] \<in> set (fst (cuda_ctor cfg en this))"
        by (rule optional_missing_run(1) [OF assms e r z l])
    next
      fix pre m' N' post
      assume a: "\<not> required m \<and> lib (symbol_name m NAME) = 0"
        and l: "Load_symbol (symbol_name m NAME) \<in> set (fst (cuda_ctor cfg en this))"
        and s: "constructor_table cfg = pre @ (m, NAME) # (m', N') # post"
      from a have r: "\<not> required m" and z: "lib (symbol_name m NAME) = 0" by simp_all
      from x mn have e: "(m, NAME) \<in> set (constructor_table cfg)" by simp
      from optional_missing_run(2) [OF assms e r z l] s
      show "Load_symbol (symbol_name m' N') \<in> set (fst (cuda_ctor cfg en this))" by blast
    qed
    then show "case x of (m, NAME) \<Rightarrow>
              \<not> required m \<and> lib (symbol_name m NAME) = 0 \<longrightarrow>
              (\<forall>s. fst (expand cfg lib m NAME s) = None \<and>
                   members (snd (expand cfg lib m NAME s)) = (members s)(NAME \<mapsto> 0) \<and>
                   events (snd (expand cfg lib m NAME s)) =
                     events s @
                     [Load_symbol (symbol_name m NAME),
                      Log LOG_WARNING
                        (ST_PREFIX @ ''Loading of optional symbol '' @ [apostrophe] @ NAME @ [apostrophe] @ '' failed.'')
                        [0]]) \<and>
              (Load_symbol (symbol_name m NAME) \<in> set (fst (cuda_ctor cfg en this)) \<longrightarrow>
                 Log LOG_WARNING
                   (ST_PREFIX @ ''Loading of optional symbol '' @ [apostrophe] @ NAME @ [apostrophe] @ '' failed.'')
                   [0] \<in> set (fst (cuda_ctor cfg en this)) \<and>
                 (\<forall>pre m' N' post.
                    constructor_table cfg = pre @ (m, NAME) # (m', N') # post \<longrightarrow>
                    Load_symbol (symbol_name m' N') \<in> set (fst (cuda_ctor cfg en this))))"
      unfolding mn prod.case w .
  qed
next
  show "\<forall>e. snd (cuda_ctor cfg en this) = Inl e \<longrightarrow>
            (\<exists>(m, NAME) \<in> set (constructor_table cfg).
               required m \<and> lib (symbol_name m NAME) = 0 \<and>
               e = Runtime_error (''Failed to load '' @ [apostrophe] @ NAME @ [apostrophe] @
                     '' from '' @ [apostrophe] @ ST_CUDA_NAME cfg @ [apostrophe] @ ''.''))"
    using ctor_Inl [OF _ assms, of this] unfolding failed_to_load_def by blast
next
  show "resolves lib (constructor_table cfg) \<longrightarrow>
            (\<exists>h. snd (cuda_ctor cfg en this) = Inr h \<and> library h = lib \<and>
               (\<forall>(m, NAME) \<in> set (constructor_table cfg).
                  Load_symbol (symbol_name m NAME) \<in> set (fst (cuda_ctor cfg en this)) \<and>
                  (\<not> required m \<and> lib (symbol_name m NAME) = 0 \<longrightarrow>
                     symbols h NAME = Some 0 \<and>
                     Log LOG_WARNING
                       (ST_PREFIX @ ''Loading of optional symbol '' @ [apostrophe] @ NAME @ [apostrophe] @ '' failed.'')
                       [0] \<in> set (fst (cuda_ctor cfg en this)))))"
    by (intro impI) (rule optional_missing_ready [OF assms])
qed

theorem optional_symbol_missing_witness:
  "Log LOG_WARNING
     (ST_PREFIX @ ''Loading of optional symbol '' @ [apostrophe] @ ''cuCtxGetCurrent'' @ [apostrophe] @ '' failed.'')
     [0] \<in> set (fst (cuda_ctor linux (driver_with (missing_two ''cuCtxGetCurrent'' ''cuMemAlloc_v2'')) 0)) \<and>
   Load_symbol ''cuCtxSetCurrent''
     \<in> set (fst (cuda_ctor linux (driver_with (missing_two ''cuCtxGetCurrent'' ''cuMemAlloc_v2'')) 0)) \<and>
   snd (cuda_ctor linux (driver_with (missing_two ''cuCtxGetCurrent'' ''cuMemAlloc_v2'')) 0) =
     Inl (Runtime_error (''Failed to load '' @ [apostrophe] @ ''cuMemAlloc'' @ [apostrophe] @
        '' from '' @ [apostrophe] @ ''libcuda.so.1'' @ [apostrophe] @ ''.'')) \<and>
   (\<exists>h. snd (cuda_ctor linux (driver_with (missing ''cuCtxGetCurrent'')) 0) = Inr h \<and>
       symbols h ''cuCtxGetCurrent'' = Some 0 \<and>
       Log LOG_WARNING
         (ST_PREFIX @ ''Loading of optional symbol '' @ [apostrophe] @ ''cuCtxGetCurrent'' @ [apostrophe] @ '' failed.'')
         [0] \<in> set (fst (cuda_ctor linux (driver_with (missing ''cuCtxGetCurrent'')) 0)) \<and>
       Load_symbol ''cuGraphicsUnregisterResource''
         \<in> set (fst (cuda_ctor linux (driver_with (missing ''cuCtxGetCurrent'')) 0)))"
proof (intro conjI)
  let ?lib = "missing_two ''cuCtxGetCurrent'' ''cuMemAlloc_v2''"
  let ?run = "cuda_ctor linux (driver_with ?lib) 0"
  let ?warning = "Log LOG_WARNING
     (ST_PREFIX @ ''Loading of optional symbol '' @ [apostrophe] @ ''cuCtxGetCurrent'' @ [apostrophe] @ '' failed.'') [0]"
  have z: "\<not> required P_CUDA_LOAD_SYMBOL_OPT \<and> ?lib (symbol_name P_CUDA_LOAD_SYMBOL_OPT ''cuCtxGetCurrent'') = 0"
    by (simp add: required_def missing_two_def symbol_name_def versioned_def)
  have l: "Load_symbol (symbol_name P_CUDA_LOAD_SYMBOL_OPT ''cuCtxGetCurrent'') \<in> set (fst ?run)"
    using two_missing_looked_up
    by (simp add: ctor_lookups [OF driver_with_load] symbol_name_def versioned_def)
  from optional_symbol_missing [OF driver_with_load, of ?lib 0]
  have "\<forall>(m, NAME) \<in> set (constructor_table linux).
          \<not> required m \<and> ?lib (symbol_name m NAME) = 0 \<longrightarrow>
            (Load_symbol (symbol_name m NAME) \<in> set (fst ?run) \<longrightarrow>
               Log LOG_WARNING
                 (ST_PREFIX @ ''Loading of optional symbol '' @ [apostrophe] @ NAME @ [apostrophe] @ '' failed.'')
                 [0] \<in> set (fst ?run) \<and>
               (\<forall>pre m' N' post.
                  constructor_table linux = pre @ (m, NAME) # (m', N') # post \<longrightarrow>
                  Load_symbol (symbol_name m' N') \<in> set (fst ?run)))"
    by fast
  from bspec [OF this in_table_linux(2)] z l
  have w: "?warning \<in> set (fst ?run)"
    and n: "\<forall>pre m' N' post.
        constructor_table linux = pre @ (P_CUDA_LOAD_SYMBOL_OPT, ''cuCtxGetCurrent'') # (m', N') # post \<longrightarrow>
        Load_symbol (symbol_name m' N') \<in> set (fst ?run)"
    by simp_all
  show "?warning \<in> set (fst ?run)" by (rule w)
  from table_split_linux n
  have "Load_symbol (symbol_name P_CUDA_LOAD_SYMBOL_OPT ''cuCtxSetCurrent'') \<in> set (fst ?run)" by blast
  then show "Load_symbol ''cuCtxSetCurrent'' \<in> set (fst ?run)"
    by (simp add: symbol_name_def versioned_def)
  show "snd ?run = Inl (Runtime_error (''Failed to load '' @ [apostrophe] @ ''cuMemAlloc'' @ [apostrophe] @
        '' from '' @ [apostrophe] @ ''libcuda.so.1'' @ [apostrophe] @ ''.''))"
  proof -
    have "snd ?run = Inl (Runtime_error (failed_to_load linux ''cuMemAlloc''))"
      by (simp add: ctor_snd driver_with_load two_missing_load)
    then show ?thesis by (simp add: failed_to_load_def ST_CUDA_NAME_def linux_def)
  qed
next
  let ?lib = "missing ''cuCtxGetCurrent''"
  let ?run = "cuda_ctor linux (driver_with ?lib) 0"
  from optional_symbol_missing [OF driver_with_load, of ?lib 0] optional_missing_resolves
  obtain h where h: "snd ?run = Inr h"
    and t: "\<forall>(m, NAME) \<in> set (constructor_table linux).
              Load_symbol (symbol_name m NAME) \<in> set (fst ?run) \<and>
              (\<not> required m \<and> ?lib (symbol_name m NAME) = 0 \<longrightarrow>
                 symbols h NAME = Some 0 \<and>
                 Log LOG_WARNING
                   (ST_PREFIX @ ''Loading of optional symbol '' @ [apostrophe] @ NAME @ [apostrophe] @ '' failed.'')
                   [0] \<in> set (fst ?run))"
    by blast
  have z: "\<not> required P_CUDA_LOAD_SYMBOL_OPT \<and> ?lib (symbol_name P_CUDA_LOAD_SYMBOL_OPT ''cuCtxGetCurrent'') = 0"
    by (simp add: required_def missing_def symbol_name_def versioned_def)
  have last: "(P_CUDA_LOAD_SYMBOL, ''cuGraphicsUnregisterResource'') \<in> set (constructor_table linux)"
    by (simp add: constructor_table_def remaining_symbols_def)
  from bspec [OF t in_table_linux(2)] z
  have "symbols h ''cuCtxGetCurrent'' = Some 0"
    and "Log LOG_WARNING
         (ST_PREFIX @ ''Loading of optional symbol '' @ [apostrophe] @ ''cuCtxGetCurrent'' @ [apostrophe] @ '' failed.'')
         [0] \<in> set (fst ?run)"
    by simp_all
  moreover from bspec [OF t last]
  have "Load_symbol ''cuGraphicsUnregisterResource'' \<in> set (fst ?run)"
    by (simp add: symbol_name_def versioned_def)
  ultimately show "\<exists>h. snd ?run = Inr h \<and>
       symbols h ''cuCtxGetCurrent'' = Some 0 \<and>
       Log LOG_WARNING
         (ST_PREFIX @ ''Loading of optional symbol '' @ [apostrophe] @ ''cuCtxGetCurrent'' @ [apostrophe] @ '' failed.'')
         [0] \<in> set (fst ?run) \<and>
       Load_symbol ''cuGraphicsUnregisterResource'' \<in> set (fst ?run)"
    using h by blast
qed

section \<open>Versioned symbols\<close>

lemma versioned_cases: "versioned m \<Longrightarrow> m = P_CUDA_LOAD_SYMBOL_V2 \<or> m = P_CUDA_LOAD_SYMBOL_OPT_V2"
  by (simp add: versioned_def)

lemma distinct_names_macro:
  assumes "distinct (map snd es)" and "(a, x) \<in> set es" and "(b, x) \<in> set es"
  shows "a = b"
proof -
  from assms(1) have "inj_on snd (set es)" by (simp add: distinct_map)
  from inj_onD [OF this _ assms(2,3)] show ?thesis by simp
qed

lemma plain_not_looked_up:
  assumes "(m, X) \<in> set (constructor_table cfg)" and "versioned m"
  shows "Load_symbol X \<notin> set (load_events lib (constructor_table cfg))"
proof
  assume "Load_symbol X \<in> set (load_events lib (constructor_table cfg))"
  from lookup_in_load_events [OF this] obtain m' N' where
    e': "(m', N') \<in> set (constructor_table cfg)" and x: "X = symbol_name m' N'" by auto
  from names_plain [OF assms(1)] have px: "CHR ''_'' \<notin> set X" .
  from px x have nv: "\<not> versioned m'" by (auto simp: symbol_name_def split: if_splits)
  with x have "N' = X" by (simp add: symbol_name_def)
  with e' assms(1) have "m' = m"
    using distinct_names_macro [OF names_distinct, of m' X cfg m] by simp
  with nv assms(2) show False by simp
qed

lemma suffixed_not_member:
  assumes "(m, X) \<in> set (constructor_table cfg)"
  shows "X @ ''_v2'' \<notin> snd ` set (constructor_table cfg)"
proof
  assume "X @ ''_v2'' \<in> snd ` set (constructor_table cfg)"
  then obtain m' where "(m', X @ ''_v2'') \<in> set (constructor_table cfg)" by auto
  from names_plain [OF this] show False by simp
qed

text \<open>
  Claim C4.  A macro of the \<^verbatim>\<open>_V2\<close> family invoked with \<open>X\<close> passes exactly
  \<open>X @ ''_v2''\<close> to \<^verbatim>\<open>load_symbol\<close>, makes no lookup of \<open>X\<close>, and stores the
  result in the member \<open>X\<close>.  For the versioned entries of the constructor's table: no run
  ever looks up the plain \<open>X\<close>; and in a run that returns an object, \<open>X @ ''_v2''\<close> was
  looked up, its address is in the member \<open>X\<close>, and there is no member named
  \<open>X @ ''_v2''\<close>.
\<close>

theorem versioned_symbol_lookup:
  assumes "versioned m"
  shows "(\<exists>w. events (snd (expand cfg lib m X s)) = events s @ Load_symbol (X @ ''_v2'') # w \<and>
              Load_symbol X \<notin> set w) \<and>
         members (snd (expand cfg lib m X s)) = (members s)(X \<mapsto> lib (X @ ''_v2'')) \<and>
         ((m, X) \<in> set (constructor_table cfg) \<longrightarrow>
            Load_symbol X \<notin> set (fst (cuda_ctor cfg en this)) \<and>
            (\<forall>h. snd (cuda_ctor cfg en this) = Inr h \<longrightarrow>
               Load_symbol (X @ ''_v2'') \<in> set (fst (cuda_ctor cfg en this)) \<and>
               symbols h X = Some (library h (X @ ''_v2'')) \<and>
               symbols h (X @ ''_v2'') = None))"
proof (intro conjI impI allI)
  from versioned_cases [OF assms]
  show "\<exists>w. events (snd (expand cfg lib m X s)) = events s @ Load_symbol (X @ ''_v2'') # w \<and>
              Load_symbol X \<notin> set w"
    by (auto simp: Let_def emit_def assign_def D_LOG_WARNING_def)
  from versioned_cases [OF assms]
  show "members (snd (expand cfg lib m X s)) = (members s)(X \<mapsto> lib (X @ ''_v2''))"
    by (auto simp: Let_def emit_def assign_def)
next
  assume e: "(m, X) \<in> set (constructor_table cfg)"
  show "Load_symbol X \<notin> set (fst (cuda_ctor cfg en this))"
  proof (cases "library_load en (ST_CUDA_NAME cfg)")
    case None
    then show ?thesis
      by (simp add: ctor_no_library prologue_def D_LOG_DEBUG_def)
  next
    case (Some lib')
    from plain_not_looked_up [OF e assms] show ?thesis by (simp add: ctor_lookups [OF Some])
  qed
next
  fix h assume e: "(m, X) \<in> set (constructor_table cfg)" and h: "snd (cuda_ctor cfg en this) = Inr h"
  from ctor_Inr [OF h] obtain lib' where
    l: "library_load en (ST_CUDA_NAME cfg) = Some lib'" and r: "resolves lib' (constructor_table cfg)"
    and hd: "h = driver_handle cfg lib'" by blast
  from load_events_all [OF r e] assms
  show "Load_symbol (X @ ''_v2'') \<in> set (fst (cuda_ctor cfg en this))"
    by (simp add: ctor_lookups [OF l] symbol_name_def)
  from handle_entry [OF r e] assms hd
  show "symbols h X = Some (library h (X @ ''_v2''))"
    by (simp add: symbol_name_def driver_handle_def)
  from handle_other [OF suffixed_not_member [OF e]] hd
  show "symbols h (X @ ''_v2'') = None" by simp
qed

theorem versioned_symbol_lookup_witness:
  "Load_symbol ''cuMemAlloc'' \<notin> set (fst (cuda_ctor linux (driver_with all_present) 0)) \<and>
   Load_symbol ''cuMemAlloc_v2'' \<in> set (fst (cuda_ctor linux (driver_with all_present) 0)) \<and>
   (\<exists>h. snd (cuda_ctor linux (driver_with all_present) 0) = Inr h \<and>
      symbols h ''cuMemAlloc'' = Some (library h ''cuMemAlloc_v2'') \<and>
      symbols h ''cuMemAlloc_v2'' = None)"
proof -
  have v: "versioned P_CUDA_LOAD_SYMBOL_V2" by (simp add: versioned_def)
  have r: "snd (cuda_ctor linux (driver_with all_present) 0) = Inr (driver_handle linux all_present)"
    by (simp add: ctor_ready [OF driver_with_load all_present_resolves])
  from versioned_symbol_lookup [OF v, of linux all_present "''cuMemAlloc''"
      "\<lparr>members = Map.empty, events = []\<rparr>" "driver_with all_present" 0] in_table_linux(1) r
  show ?thesis by simp
qed

subsection \<open>The messages of the versioned macros\<close>

lemma sublist_filter_length:
  "sublist xs ys \<Longrightarrow> length (filter P xs) \<le> length (filter P ys)"
  by (auto simp: sublist_def)

lemma sublist_middle: "sublist xs (ps @ xs @ ss)"
  by (auto simp: sublist_def)

lemma suffixed_not_sublist:
  assumes "length (filter (\<lambda>c. c = CHR ''_'') msg) = length (filter (\<lambda>c. c = CHR ''_'') NAME)"
  shows "\<not> sublist (NAME @ ''_v2'') msg"
proof
  assume "sublist (NAME @ ''_v2'') msg"
  from sublist_filter_length [OF this, of "\<lambda>c. c = CHR ''_''"] assms show False by simp
qed

lemma failed_to_load_underscores:
  "length (filter (\<lambda>c. c = CHR ''_'') (failed_to_load cfg NAME)) = length (filter (\<lambda>c. c = CHR ''_'') NAME)"
  by (simp add: failed_to_load_def apostrophe_def ST_CUDA_NAME_def)

lemma optional_failed_underscores:
  "length (filter (\<lambda>c. c = CHR ''_'') (ST_PREFIX @ optional_failed NAME)) = length (filter (\<lambda>c. c = CHR ''_'') NAME)"
  by (simp add: optional_failed_def apostrophe_def ST_PREFIX_def)

text \<open>
  Claim C10.  When a macro of the \<^verbatim>\<open>_V2\<close> family finds \<open>NAME @ ''_v2''\<close>
  missing, the text of the \<^verbatim>\<open>std::runtime_error\<close> (required) or of the warning
  (optional) is built from \<open>NAME\<close> alone: it contains \<open>NAME\<close> and does not contain
  the string \<open>NAME @ ''_v2''\<close> that was looked up.
\<close>

theorem versioned_message_unsuffixed:
  assumes "versioned m" and "lib (NAME @ ''_v2'') = 0"
  shows "(required m \<longrightarrow>
            (\<exists>msg. fst (expand cfg lib m NAME s) = Some (Runtime_error msg) \<and>
               msg = ''Failed to load '' @ [apostrophe] @ NAME @ [apostrophe] @ '' from '' @
                     [apostrophe] @ ST_CUDA_NAME cfg @ [apostrophe] @ ''.'' \<and>
               sublist NAME msg \<and> \<not> sublist (NAME @ ''_v2'') msg)) \<and>
         (\<not> required m \<longrightarrow>
            (\<exists>msg. fst (expand cfg lib m NAME s) = None \<and>
               events (snd (expand cfg lib m NAME s)) =
                 events s @ [Load_symbol (NAME @ ''_v2''), Log LOG_WARNING msg [0]] \<and>
               msg = ST_PREFIX @ ''Loading of optional symbol '' @ [apostrophe] @ NAME @
                     [apostrophe] @ '' failed.'' \<and>
               sublist NAME msg \<and> \<not> sublist (NAME @ ''_v2'') msg))"
proof (intro conjI impI)
  assume "required m"
  with assms(1) have m: "m = P_CUDA_LOAD_SYMBOL_V2" by (auto simp: versioned_def required_def)
  have "fst (expand cfg lib m NAME s) = Some (Runtime_error (failed_to_load cfg NAME))"
    using assms(2) by (simp add: m Let_def)
  moreover have "sublist NAME (failed_to_load cfg NAME)"
    unfolding failed_to_load_def
    using sublist_middle [of NAME "''Failed to load '' @ [apostrophe]"
        "[apostrophe] @ '' from '' @ [apostrophe] @ ST_CUDA_NAME cfg @ [apostrophe] @ ''.''"]
    by simp
  moreover have "\<not> sublist (NAME @ ''_v2'') (failed_to_load cfg NAME)"
    by (rule suffixed_not_sublist [OF failed_to_load_underscores])
  ultimately show "\<exists>msg. fst (expand cfg lib m NAME s) = Some (Runtime_error msg) \<and>
               msg = ''Failed to load '' @ [apostrophe] @ NAME @ [apostrophe] @ '' from '' @
                     [apostrophe] @ ST_CUDA_NAME cfg @ [apostrophe] @ ''.'' \<and>
               sublist NAME msg \<and> \<not> sublist (NAME @ ''_v2'') msg"
    unfolding failed_to_load_def by blast
next
  assume "\<not> required m"
  with assms(1) have m: "m = P_CUDA_LOAD_SYMBOL_OPT_V2" by (auto simp: versioned_def required_def)
  have "fst (expand cfg lib m NAME s) = None"
    using assms(2) by (simp add: m Let_def)
  moreover have "events (snd (expand cfg lib m NAME s)) =
      events s @ [Load_symbol (NAME @ ''_v2''), Log LOG_WARNING (ST_PREFIX @ optional_failed NAME) [0]]"
    using assms(2) by (simp add: m Let_def emit_def assign_def D_LOG_WARNING_def)
  moreover have "sublist NAME (ST_PREFIX @ optional_failed NAME)"
    unfolding optional_failed_def
    using sublist_middle [of NAME "ST_PREFIX @ ''Loading of optional symbol '' @ [apostrophe]"
        "[apostrophe] @ '' failed.''"]
    by simp
  moreover have "\<not> sublist (NAME @ ''_v2'') (ST_PREFIX @ optional_failed NAME)"
    by (rule suffixed_not_sublist [OF optional_failed_underscores])
  ultimately show "\<exists>msg. fst (expand cfg lib m NAME s) = None \<and>
               events (snd (expand cfg lib m NAME s)) =
                 events s @ [Load_symbol (NAME @ ''_v2''), Log LOG_WARNING msg [0]] \<and>
               msg = ST_PREFIX @ ''Loading of optional symbol '' @ [apostrophe] @ NAME @
                     [apostrophe] @ '' failed.'' \<and>
               sublist NAME msg \<and> \<not> sublist (NAME @ ''_v2'') msg"
    unfolding optional_failed_def by blast
qed

theorem versioned_message_unsuffixed_witness:
  "fst (expand linux (missing ''cuMemAlloc_v2'') P_CUDA_LOAD_SYMBOL_V2 ''cuMemAlloc''
         \<lparr>members = Map.empty, events = []\<rparr>) =
     Some (Runtime_error (''Failed to load '' @ [apostrophe] @ ''cuMemAlloc'' @ [apostrophe] @ '' from '' @
                     [apostrophe] @ ''libcuda.so.1'' @ [apostrophe] @ ''.'')) \<and>
   \<not> sublist ''cuMemAlloc_v2'' (''Failed to load '' @ [apostrophe] @ ''cuMemAlloc'' @ [apostrophe] @ '' from '' @
                     [apostrophe] @ ''libcuda.so.1'' @ [apostrophe] @ ''.'') \<and>
   events (snd (expand linux (missing ''cuMemsetD16_v2'') P_CUDA_LOAD_SYMBOL_OPT_V2 ''cuMemsetD16''
         \<lparr>members = Map.empty, events = []\<rparr>)) =
     [Load_symbol ''cuMemsetD16_v2'',
      Log LOG_WARNING (ST_PREFIX @ ''Loading of optional symbol '' @ [apostrophe] @ ''cuMemsetD16'' @
                     [apostrophe] @ '' failed.'') [0]] \<and>
   \<not> sublist ''cuMemsetD16_v2'' (ST_PREFIX @ ''Loading of optional symbol '' @ [apostrophe] @ ''cuMemsetD16'' @
                     [apostrophe] @ '' failed.'')"
proof -
  have v: "versioned P_CUDA_LOAD_SYMBOL_V2" "versioned P_CUDA_LOAD_SYMBOL_OPT_V2"
    by (simp_all add: versioned_def)
  have r: "required P_CUDA_LOAD_SYMBOL_V2" "\<not> required P_CUDA_LOAD_SYMBOL_OPT_V2"
    by (simp_all add: required_def)
  have z: "missing ''cuMemAlloc_v2'' (''cuMemAlloc'' @ ''_v2'') = 0"
    "missing ''cuMemsetD16_v2'' (''cuMemsetD16'' @ ''_v2'') = 0"
    by (simp_all add: missing_def)
  have n: "ST_CUDA_NAME linux = ''libcuda.so.1''" by (simp add: ST_CUDA_NAME_def linux_def)
  from versioned_message_unsuffixed [where m = P_CUDA_LOAD_SYMBOL_V2 and lib = "missing ''cuMemAlloc_v2''"
      and NAME = "''cuMemAlloc''" and cfg = linux and s = "\<lparr>members = Map.empty, events = []\<rparr>", OF v(1) z(1)] r(1)
  have a: "fst (expand linux (missing ''cuMemAlloc_v2'') P_CUDA_LOAD_SYMBOL_V2 ''cuMemAlloc''
         \<lparr>members = Map.empty, events = []\<rparr>) =
     Some (Runtime_error (''Failed to load '' @ [apostrophe] @ ''cuMemAlloc'' @ [apostrophe] @ '' from '' @
                     [apostrophe] @ ''libcuda.so.1'' @ [apostrophe] @ ''.'')) \<and>
   \<not> sublist ''cuMemAlloc_v2'' (''Failed to load '' @ [apostrophe] @ ''cuMemAlloc'' @ [apostrophe] @ '' from '' @
                     [apostrophe] @ ''libcuda.so.1'' @ [apostrophe] @ ''.'')"
    unfolding n by simp
  from versioned_message_unsuffixed [where m = P_CUDA_LOAD_SYMBOL_OPT_V2 and lib = "missing ''cuMemsetD16_v2''"
      and NAME = "''cuMemsetD16''" and cfg = linux and s = "\<lparr>members = Map.empty, events = []\<rparr>", OF v(2) z(2)] r(2)
  have b: "events (snd (expand linux (missing ''cuMemsetD16_v2'') P_CUDA_LOAD_SYMBOL_OPT_V2 ''cuMemsetD16''
         \<lparr>members = Map.empty, events = []\<rparr>)) =
     [Load_symbol ''cuMemsetD16_v2'',
      Log LOG_WARNING (ST_PREFIX @ ''Loading of optional symbol '' @ [apostrophe] @ ''cuMemsetD16'' @
                     [apostrophe] @ '' failed.'') [0]] \<and>
   \<not> sublist ''cuMemsetD16_v2'' (ST_PREFIX @ ''Loading of optional symbol '' @ [apostrophe] @ ''cuMemsetD16'' @
                     [apostrophe] @ '' failed.'')"
    by simp
  from a b show ?thesis by blast
qed

section \<open>The order of the constructor\<close>

lemma remaining_not_critical:
  assumes "(m, N) \<in> set (remaining_symbols cfg)"
  shows "symbol_name m N \<noteq> ''cuInit''" "symbol_name m N \<noteq> ''cuDriverGetVersion''"
  using assms
  by (cases "win32 cfg"; auto simp: remaining_symbols_def symbol_name_def versioned_def)+

lemma version_events_shape:
  "\<exists>line. version_events en p = [Call_cuDriverGetVersion p, line] \<and>
     ((\<exists>args. line = Log LOG_INFO (ST_PREFIX @ version_format) args) \<or>
      line = Log LOG_WARNING (ST_PREFIX @ ''Failed to query NVIDIA CUDA Driver for version.'') [0])"
  by (cases "cuDriverGetVersion_native en p 0")
    (simp add: version_events_def D_LOG_INFO_def D_LOG_WARNING_def)

text \<open>
  Claim C9.  Every run of the constructor that returns an object starts with the two
  events of \<open>prologue\<close> (the debug line and the opening of the library), then the lookup
  of \<^verbatim>\<open>cuInit\<close>, the lookup of \<^verbatim>\<open>cuDriverGetVersion\<close>, the call through the
  latter and its log line (the version, or the warning that the query failed).  All lookups
  of the remaining symbols come after these, and none of them is one of the two.
\<close>

theorem critical_symbols_first:
  assumes "snd (cuda_ctor cfg en this) = Inr h"
  shows "\<exists>line rest.
      fst (cuda_ctor cfg en this) =
        prologue cfg this @
        [Load_symbol ''cuInit'', Load_symbol ''cuDriverGetVersion'',
         Call_cuDriverGetVersion (library h ''cuDriverGetVersion''), line] @ rest \<and>
      ((\<exists>args. line = Log LOG_INFO (ST_PREFIX @ version_format) args) \<or>
       line = Log LOG_WARNING (ST_PREFIX @ ''Failed to query NVIDIA CUDA Driver for version.'') [0]) \<and>
      (\<forall>(m, NAME) \<in> set (remaining_symbols cfg). Load_symbol (symbol_name m NAME) \<in> set rest) \<and>
      (\<forall>x. Load_symbol x \<in> set rest \<longrightarrow>
         x \<in> (\<lambda>(m, NAME). symbol_name m NAME) ` set (remaining_symbols cfg) \<and>
         x \<noteq> ''cuInit'' \<and> x \<noteq> ''cuDriverGetVersion'')"
proof -
  from ctor_Inr [OF assms] obtain lib where
    l: "library_load en (ST_CUDA_NAME cfg) = Some lib" and r: "resolves lib (constructor_table cfg)"
    and hd: "h = driver_handle cfg lib" by blast
  from r have rc: "resolves lib critical_symbols" and rr: "resolves lib (remaining_symbols cfg)"
    by (simp_all add: constructor_table_def resolves_append)
  from version_events_shape [of en "lib ''cuDriverGetVersion''"] obtain line where
    ve: "version_events en (lib ''cuDriverGetVersion'') = [Call_cuDriverGetVersion (lib ''cuDriverGetVersion''), line]"
    and ln: "(\<exists>args. line = Log LOG_INFO (ST_PREFIX @ version_format) args) \<or>
       line = Log LOG_WARNING (ST_PREFIX @ ''Failed to query NVIDIA CUDA Driver for version.'') [0]"
    by blast
  let ?rest = "load_events lib (remaining_symbols cfg) @ [Call_cuInit (lib ''cuInit'') 0]"
  have f: "fst (cuda_ctor cfg en this) =
        prologue cfg this @
        [Load_symbol ''cuInit'', Load_symbol ''cuDriverGetVersion'',
         Call_cuDriverGetVersion (library h ''cuDriverGetVersion''), line] @ ?rest"
    unfolding ctor_fst [OF l] critical_events [OF rc] ve using rc rr hd
    by (simp add: driver_handle_def)
  have a: "\<forall>(m, NAME) \<in> set (remaining_symbols cfg). Load_symbol (symbol_name m NAME) \<in> set ?rest"
    using load_events_all [OF rr] by auto
  have b: "\<forall>x. Load_symbol x \<in> set ?rest \<longrightarrow>
         x \<in> (\<lambda>(m, NAME). symbol_name m NAME) ` set (remaining_symbols cfg) \<and>
         x \<noteq> ''cuInit'' \<and> x \<noteq> ''cuDriverGetVersion''"
  proof (intro allI impI)
    fix x assume "Load_symbol x \<in> set ?rest"
    then have "Load_symbol x \<in> set (load_events lib (remaining_symbols cfg))" by simp
    from lookup_in_load_events [OF this] obtain m N where
      mn: "(m, N) \<in> set (remaining_symbols cfg)" "x = symbol_name m N" by auto
    have "x \<in> (\<lambda>(m, NAME). symbol_name m NAME) ` set (remaining_symbols cfg)"
      unfolding mn(2) using mn(1) by (rule image_eqI [where x = "(m, N)", rotated]) simp
    with remaining_not_critical [OF mn(1)] mn(2)
    show "x \<in> (\<lambda>(m, NAME). symbol_name m NAME) ` set (remaining_symbols cfg) \<and>
         x \<noteq> ''cuInit'' \<and> x \<noteq> ''cuDriverGetVersion''"
      by simp
  qed
  show ?thesis
    by (rule exI [where x = line], rule exI [where x = ?rest], intro conjI) (rule f ln a b)+
qed

theorem critical_symbols_first_witness:
  "\<exists>rest.
      fst (cuda_ctor linux (driver_with all_present) 0) =
        prologue linux 0 @
        [Load_symbol ''cuInit'', Load_symbol ''cuDriverGetVersion'',
         Call_cuDriverGetVersion 4096, Log LOG_INFO (ST_PREFIX @ version_format) [11, 2, 0]] @ rest \<and>
      Load_symbol ''cuDeviceGetName'' \<in> set rest \<and>
      Load_symbol ''cuInit'' \<notin> set rest \<and> Load_symbol ''cuDriverGetVersion'' \<notin> set rest"
proof -
  let ?run = "cuda_ctor linux (driver_with all_present) 0"
  have r: "snd ?run = Inr (driver_handle linux all_present)"
    by (simp add: ctor_ready [OF driver_with_load all_present_resolves])
  from critical_symbols_first [OF r] obtain line rest where
    f: "fst ?run = prologue linux 0 @
        [Load_symbol ''cuInit'', Load_symbol ''cuDriverGetVersion'',
         Call_cuDriverGetVersion (library (driver_handle linux all_present) ''cuDriverGetVersion''), line] @ rest"
    and a: "\<forall>(m, NAME) \<in> set (remaining_symbols linux). Load_symbol (symbol_name m NAME) \<in> set rest"
    and b: "\<forall>x. Load_symbol x \<in> set rest \<longrightarrow>
         x \<in> (\<lambda>(m, NAME). symbol_name m NAME) ` set (remaining_symbols linux) \<and>
         x \<noteq> ''cuInit'' \<and> x \<noteq> ''cuDriverGetVersion''"
    by blast
  have g: "fst ?run = prologue linux 0 @
        [Load_symbol ''cuInit'', Load_symbol ''cuDriverGetVersion'', Call_cuDriverGetVersion 4096,
         Log LOG_INFO (ST_PREFIX @ version_format) [11, 2, 0]] @
        (load_events all_present (remaining_symbols linux) @ [Call_cuInit 4096 0])"
    unfolding ctor_fst [OF driver_with_load] critical_events [OF all_present_resolves]
    using all_present_resolves
    by (simp add: version_events_def driver_with_def D_LOG_INFO_def all_present_def
        decode_major decode_minor decode_patch sdiv_pos smod_pos)
  from f g have "line = Log LOG_INFO (ST_PREFIX @ version_format) [11, 2, 0]"
    and "library (driver_handle linux all_present) ''cuDriverGetVersion'' = 4096" by simp_all
  with f have f': "fst ?run = prologue linux 0 @
        [Load_symbol ''cuInit'', Load_symbol ''cuDriverGetVersion'', Call_cuDriverGetVersion 4096,
         Log LOG_INFO (ST_PREFIX @ version_format) [11, 2, 0]] @ rest" by simp
  have first: "(P_CUDA_LOAD_SYMBOL, ''cuDeviceGetName'') \<in> set (remaining_symbols linux)"
    by (simp add: remaining_symbols_def)
  from bspec [OF a first] have "Load_symbol ''cuDeviceGetName'' \<in> set rest"
    by (simp add: symbol_name_def versioned_def)
  moreover from b have "Load_symbol ''cuInit'' \<notin> set rest" "Load_symbol ''cuDriverGetVersion'' \<notin> set rest"
    by blast+
  ultimately show ?thesis using f' by blast
qed

subsection \<open>The initialization call\<close>

lemma no_cuInit_in_load_events: "Call_cuInit p a \<notin> set (load_events lib es)"
  by (induction es) (auto simp: D_LOG_WARNING_def split: if_splits)

text \<open>
  Claim C6.  Let the library open and every required entry resolve.  Whatever the native
  \<^verbatim>\<open>cuInit\<close> returns (\<open>f\<close> is arbitrary), the constructor returns the same object
  after the same events: it calls the address of \<^verbatim>\<open>cuInit\<close> once, with argument 0,
  as its last action, after every lookup of the table.
\<close>

theorem cuInit_result_ignored:
  assumes "library_load en (ST_CUDA_NAME cfg) = Some lib"
    and "resolves lib (constructor_table cfg)"
  shows "\<exists>evs h.
      cuda_ctor cfg (en\<lparr>cuInit_native := f\<rparr>) this = (evs @ [Call_cuInit (lib ''cuInit'') 0], Inr h) \<and>
      cuda_ctor cfg (en\<lparr>cuInit_native := f\<rparr>) this = cuda_ctor cfg en this \<and>
      library h = lib \<and> lib ''cuInit'' \<noteq> 0 \<and>
      (\<forall>p a. Call_cuInit p a \<notin> set evs) \<and>
      (\<forall>(m, NAME) \<in> set (constructor_table cfg). Load_symbol (symbol_name m NAME) \<in> set evs)"
proof -
  from assms(2) have rc: "resolves lib critical_symbols" and rr: "resolves lib (remaining_symbols cfg)"
    by (simp_all add: constructor_table_def resolves_append)
  let ?en = "en\<lparr>cuInit_native := f\<rparr>"
  let ?evs = "prologue cfg this @ load_events lib critical_symbols @
        version_events en (lib ''cuDriverGetVersion'') @ load_events lib (remaining_symbols cfg)"
  have l: "library_load ?en (ST_CUDA_NAME cfg) = Some lib" using assms(1) by simp
  have v: "version_events ?en = version_events en" by (simp add: version_events_def fun_eq_iff)
  have 1: "cuda_ctor cfg ?en this = (?evs @ [Call_cuInit (lib ''cuInit'') 0], Inr (driver_handle cfg lib))"
    by (simp add: ctor_ready [OF l assms(2)] v)
  have 2: "cuda_ctor cfg ?en this = cuda_ctor cfg en this"
    by (simp add: ctor_ready [OF l assms(2)] ctor_ready [OF assms] v)
  have 3: "\<forall>p a. Call_cuInit p a \<notin> set ?evs"
  proof (intro allI notI)
    fix p a assume "Call_cuInit p a \<in> set ?evs"
    then have "Call_cuInit p a \<in> set (load_events lib (constructor_table cfg))"
      using rc by (auto simp: prologue_def D_LOG_DEBUG_def version_events_def D_LOG_INFO_def
          D_LOG_WARNING_def constructor_table_def load_events_append_if split: prod.splits if_splits)
    then show False by (simp add: no_cuInit_in_load_events)
  qed
  have 4: "\<forall>(m, NAME) \<in> set (constructor_table cfg). Load_symbol (symbol_name m NAME) \<in> set ?evs"
    using load_events_all [OF assms(2)] rc
    by (auto simp: constructor_table_def load_events_append_if)
  have 5: "library (driver_handle cfg lib) = lib" by (simp add: driver_handle_def)
  from 1 2 3 4 5 critical_resolved(4) [OF rc] show ?thesis by blast
qed

theorem cuInit_result_ignored_witness:
  "\<exists>evs h.
      cuda_ctor linux ((driver_with all_present)\<lparr>cuInit_native := (\<lambda>p flags. FAILURE 100)\<rparr>) 0 =
        (evs @ [Call_cuInit 4096 0], Inr h) \<and>
      library h = all_present \<and>
      (\<forall>p a. Call_cuInit p a \<notin> set evs) \<and>
      Load_symbol ''cuGraphicsUnregisterResource'' \<in> set evs"
proof -
  let ?en = "(driver_with all_present)\<lparr>cuInit_native := (\<lambda>p flags. FAILURE 100)\<rparr>"
  from cuInit_result_ignored [OF driver_with_load all_present_resolves, of "\<lambda>p flags. FAILURE 100" 0]
  obtain evs h where
    c: "cuda_ctor linux ?en 0 = (evs @ [Call_cuInit (all_present ''cuInit'') 0], Inr h)"
    and l: "library h = all_present"
    and n: "\<forall>p a. Call_cuInit p a \<notin> set evs"
    and a: "\<forall>(m, NAME) \<in> set (constructor_table linux). Load_symbol (symbol_name m NAME) \<in> set evs"
    by blast
  have last: "(P_CUDA_LOAD_SYMBOL, ''cuGraphicsUnregisterResource'') \<in> set (constructor_table linux)"
    by (simp add: constructor_table_def remaining_symbols_def)
  from bspec [OF a last] have "Load_symbol ''cuGraphicsUnregisterResource'' \<in> set evs"
    by (simp add: symbol_name_def versioned_def)
  moreover from c have "cuda_ctor linux ?en 0 = (evs @ [Call_cuInit 4096 0], Inr h)"
    by (simp add: all_present_def)
  ultimately show ?thesis using l n by blast
qed

section \<open>version()\<close>

lemma handle_version_member:
  assumes "snd (cuda_ctor cfg en0 this) = Inr h"
  shows "symbols h ''cuDriverGetVersion'' = Some (library h ''cuDriverGetVersion'')"
    and "library h ''cuDriverGetVersion'' \<noteq> 0"
proof -
  from ctor_Inr [OF assms] obtain lib where
    r: "resolves lib (constructor_table cfg)" and hd: "h = driver_handle cfg lib" by blast
  have e: "(P_CUDA_LOAD_SYMBOL, ''cuDriverGetVersion'') \<in> set (constructor_table cfg)"
    by (simp add: constructor_table_def critical_symbols_def)
  from handle_entry [OF r e] hd
  show "symbols h ''cuDriverGetVersion'' = Some (library h ''cuDriverGetVersion'')"
    by (simp add: driver_handle_def symbol_name_def versioned_def)
  from r have "resolves lib critical_symbols" by (simp add: constructor_table_def resolves_append)
  from critical_resolved(3) [OF this] hd show "library h ''cuDriverGetVersion'' \<noteq> 0"
    by (simp add: driver_handle_def)
qed

lemma query_fails_load: "library_load query_fails (ST_CUDA_NAME linux) = Some all_present"
  "library_load query_untouched (ST_CUDA_NAME linux) = Some all_present"
  by (simp_all add: query_fails_def query_untouched_def driver_with_def ST_CUDA_NAME_def linux_def)

lemma version_at_handle:
  "version en (driver_handle linux all_present) =
     ([Call_cuDriverGetVersion 4096], Inr (snd (cuDriverGetVersion_native en 4096 0)))"
proof -
  have e: "(P_CUDA_LOAD_SYMBOL, ''cuDriverGetVersion'') \<in> set (constructor_table linux)"
    by (simp add: constructor_table_def critical_symbols_def)
  from handle_entry [OF all_present_resolves e]
  have "symbols (driver_handle linux all_present) ''cuDriverGetVersion'' = Some 4096"
    by (simp add: symbol_name_def versioned_def all_present_def)
  then show ?thesis by (simp add: version_def callee_def split: prod.splits)
qed

text \<open>
  Claim C8, as the code has it.  On an object the constructor returned, for any behaviour
  of the driver, \<^verbatim>\<open>version()\<close> makes one call through the non-null
  \<^verbatim>\<open>cuDriverGetVersion\<close> pointer and returns the content of its variable \<open>v\<close>
  after the call: what the driver wrote, or the initial 0 when the driver left it untouched.
  It never ends in an error.  The status of the call takes no part in the result.
\<close>

theorem version_returns_variable:
  assumes "snd (cuda_ctor cfg en0 this) = Inr h"
  shows "library h ''cuDriverGetVersion'' \<noteq> 0 \<and>
         version en h =
           ([Call_cuDriverGetVersion (library h ''cuDriverGetVersion'')],
            Inr (snd (cuDriverGetVersion_native en (library h ''cuDriverGetVersion'') 0))) \<and>
         (snd (cuDriverGetVersion_native en (library h ''cuDriverGetVersion'') 0) = 0 \<longrightarrow>
            snd (version en h) = Inr 0)"
proof -
  from handle_version_member [OF assms]
  have "version en h =
           ([Call_cuDriverGetVersion (library h ''cuDriverGetVersion'')],
            Inr (snd (cuDriverGetVersion_native en (library h ''cuDriverGetVersion'') 0)))"
    by (simp add: version_def callee_def split: prod.splits)
  with handle_version_member(2) [OF assms] show ?thesis by simp
qed

theorem version_returns_variable_witness:
  "version (driver_with all_present) (driver_handle linux all_present) =
     ([Call_cuDriverGetVersion 4096], Inr 11020) \<and>
   fst (cuDriverGetVersion_native query_untouched 4096 0) = FAILURE 999 \<and>
   snd (version query_untouched (driver_handle linux all_present)) = Inr 0"
proof -
  have r: "snd (cuda_ctor linux (driver_with all_present) 0) = Inr (driver_handle linux all_present)"
    by (simp add: ctor_ready [OF driver_with_load all_present_resolves])
  have l: "library (driver_handle linux all_present) ''cuDriverGetVersion'' = 4096"
    by (simp add: driver_handle_def all_present_def)
  have q: "cuDriverGetVersion_native query_untouched 4096 0 = (FAILURE 999, 0)"
    "cuDriverGetVersion_native (driver_with all_present) 4096 0 = (SUCCESS, 11020)"
    by (simp_all add: query_untouched_def driver_with_def)
  from version_returns_variable [OF r, of "driver_with all_present"]
    version_returns_variable [OF r, of query_untouched]
  show ?thesis unfolding l q by simp
qed

text \<open>
  The claim as stated, that a failed query makes \<^verbatim>\<open>version()\<close> return 0 or a
  failure code, does not hold: a driver that fails with status 999 after writing 11020
  makes it return 11020.
\<close>

theorem version_counterexample:
  "snd (cuda_ctor linux query_fails 0) = Inr (driver_handle linux all_present) \<and>
   fst (cuDriverGetVersion_native query_fails 4096 0) = FAILURE 999 \<and>
   version query_fails (driver_handle linux all_present) = ([Call_cuDriverGetVersion 4096], Inr 11020) \<and>
   \<not> (snd (version query_fails (driver_handle linux all_present)) = Inr 0 \<or>
      snd (version query_fails (driver_handle linux all_present)) = Inr 999)"
proof -
  have "snd (cuda_ctor linux query_fails 0) = Inr (driver_handle linux all_present)"
    by (simp add: ctor_ready [OF query_fails_load(1) all_present_resolves])
  moreover have "fst (cuDriverGetVersion_native query_fails 4096 0) = FAILURE 999"
    "snd (cuDriverGetVersion_native query_fails 4096 0) = 11020"
    by (simp_all add: query_fails_def)
  ultimately show ?thesis by (simp add: version_at_handle)
qed

section \<open>The shared instance\<close>

lemma use_count_nth: "a < length (heap w) \<Longrightarrow> use_count w a = strong (heap w ! a)"
  by (simp add: use_count_def)

lemma use_count_pos: "0 < use_count w a \<longleftrightarrow> a < length (heap w) \<and> 0 < strong (heap w ! a)"
  by (simp add: use_count_def)

lemma registry_ok_expired:
  assumes "registry_ok w" and "expired w" and "a < length (heap w)"
  shows "strong (heap w ! a) = 0" and "object (heap w ! a) = None"
proof -
  show s: "strong (heap w ! a) = 0"
  proof (rule ccontr)
    assume "strong (heap w ! a) \<noteq> 0"
    then have p: "0 < strong (heap w ! a)" by simp
    with assms(1,3) have "instance_weak w = Some a" by (simp add: registry_ok_def)
    with assms(2) have "use_count w a = 0" by (simp add: expired_def)
    with assms(3) p show False by (simp add: use_count_nth)
  qed
  from assms(1,3) s show "object (heap w ! a) = None" by (auto simp: registry_ok_def)
qed

lemma registry_ok_live:
  assumes "registry_ok w"
  shows "live w a \<longleftrightarrow> 0 < use_count w a" and "0 < use_count w a \<Longrightarrow> instance_weak w = Some a"
proof -
  from assms show "live w a \<longleftrightarrow> 0 < use_count w a"
    unfolding registry_ok_def live_def use_count_pos by blast
  assume "0 < use_count w a"
  then have "a < length (heap w)" "0 < strong (heap w ! a)" by (simp_all add: use_count_pos)
  with assms show "instance_weak w = Some a" unfolding registry_ok_def by blast
qed

lemma registry_ok_others:
  assumes "registry_ok w" and "0 < use_count w a" and "b < length (heap w)" and "b \<noteq> a"
  shows "strong (heap w ! b) = 0" and "object (heap w ! b) = None"
proof -
  show s: "strong (heap w ! b) = 0"
  proof (rule ccontr)
    assume "strong (heap w ! b) \<noteq> 0"
    with assms(3) have "0 < use_count w b" by (simp add: use_count_pos)
    from registry_ok_live(2) [OF assms(1) this] registry_ok_live(2) [OF assms(1,2)] assms(4)
    show False by simp
  qed
  from assms(1,3) s show "object (heap w ! b) = None" unfolding registry_ok_def by auto
qed

lemma get_constructs:
  assumes "expired w"
  shows "get cfg en w =
     (case cuda_ctor cfg en (length (heap w)) of
        (evs, Inl e) \<Rightarrow> (Inl e, w\<lparr>trace := trace w @ evs\<rparr>)
      | (evs, Inr obj) \<Rightarrow>
          (Inr (Some (length (heap w))),
           w\<lparr>heap := heap w @ [\<lparr>strong = 1, object = Some obj\<rparr>],
             instance_weak := Some (length (heap w)),
             trace := trace w @ evs\<rparr>))"
  using assms by (simp add: get_def Let_def split: prod.splits sum.splits)

lemma get_reuses:
  assumes "registry_ok w" and "0 < use_count w a"
  shows "get cfg en w =
     (Inr (Some a), w\<lparr>heap := (heap w)[a := (heap w ! a)\<lparr>strong := Suc (strong (heap w ! a))\<rparr>]\<rparr>)"
proof -
  from registry_ok_live(2) [OF assms] have i: "instance_weak w = Some a" .
  with assms(2) have "\<not> expired w" by (simp add: expired_def)
  with i assms(2) show ?thesis by (simp add: get_def weak_lock_def)
qed

lemma registry_ok_bump:
  assumes "registry_ok w" and "0 < use_count w a"
  shows "registry_ok (w\<lparr>heap := (heap w)[a := (heap w ! a)\<lparr>strong := Suc (strong (heap w ! a))\<rparr>]\<rparr>)"
  using assms by (auto simp: registry_ok_def use_count_pos nth_list_update)

lemma registry_ok_get:
  assumes "registry_ok w"
  shows "registry_ok (snd (get cfg en w))"
proof (cases "expired w")
  case True
  obtain evs r where c: "cuda_ctor cfg en (length (heap w)) = (evs, r)"
    by (cases "cuda_ctor cfg en (length (heap w))")
  show ?thesis
  proof (cases r)
    case (Inl e)
    with c True assms show ?thesis by (simp add: get_constructs registry_ok_def)
  next
    case (Inr obj)
    from registry_ok_expired [OF assms True]
    have "\<forall>a < length (heap w). strong (heap w ! a) = 0 \<and> object (heap w ! a) = None" by simp
    with c Inr True show ?thesis
      by (auto simp: get_constructs registry_ok_def nth_append less_Suc_eq)
  qed
next
  case False
  then obtain a where i: "instance_weak w = Some a" and u: "0 < use_count w a"
    by (auto simp: expired_def split: option.splits)
  from registry_ok_bump [OF assms u] show ?thesis by (simp add: get_reuses [OF assms u])
qed

lemma registry_ok_copy_ref:
  assumes "registry_ok w"
  shows "registry_ok (copy_ref a w)"
  using registry_ok_bump [OF assms, of a] assms by (simp add: copy_ref_def)

lemma registry_ok_release:
  assumes "registry_ok w"
  shows "registry_ok (release a w)"
proof (cases "0 < use_count w a")
  case False
  with assms show ?thesis by (simp add: release_def)
next
  case True
  then have a: "a < length (heap w)" "0 < strong (heap w ! a)" by (simp_all add: use_count_pos)
  from registry_ok_others [OF assms True]
  have o: "\<forall>b < length (heap w). b \<noteq> a \<longrightarrow> strong (heap w ! b) = 0 \<and> object (heap w ! b) = None"
    by simp
  from assms a have oa: "object (heap w ! a) \<noteq> None" unfolding registry_ok_def by blast
  from registry_ok_live(2) [OF assms True] have i: "instance_weak w = Some a" .
  show ?thesis
  proof (cases "strong (heap w ! a) = 1")
    case True
    with \<open>0 < use_count w a\<close> o a(1) show ?thesis
      by (auto simp: release_def registry_ok_def nth_list_update)
  next
    case False
    with a have "0 < strong (heap w ! a) - 1" by simp
    with False \<open>0 < use_count w a\<close> o oa i a(1) show ?thesis
      by (auto simp: release_def registry_ok_def nth_list_update)
  qed
qed

lemma registry_ok_step: "registry_ok w \<Longrightarrow> registry_ok (step cfg x w)"
  by (cases x) (simp_all add: registry_ok_get registry_ok_copy_ref registry_ok_release)

lemma registry_ok_run: "registry_ok w \<Longrightarrow> registry_ok (run cfg xs w)"
  by (induction xs arbitrary: w) (simp_all add: registry_ok_step)

lemma registry_ok_start: "registry_ok process_start"
  by (simp add: registry_ok_def process_start_def)

lemma expired_start: "expired process_start"
  by (simp add: expired_def process_start_def)

lemma first_get:
  "get linux (driver_with all_present) process_start =
     (Inr (Some 0),
      \<lparr>heap = [\<lparr>strong = 1, object = Some (driver_handle linux all_present)\<rparr>],
       instance_weak = Some 0,
       trace = fst (cuda_ctor linux (driver_with all_present) 0)\<rparr>)"
  unfolding get_constructs [OF expired_start]
  by (simp add: process_start_def ctor_ready [OF driver_with_load all_present_resolves])

text \<open>
  Claim C1.  Let \<open>w\<close> be the process after any sequence of calls of \<^verbatim>\<open>get()\<close>
  (with any environments) and of copies and drops of the returned pointers.  At most one
  object is live in \<open>w\<close>.  If an object \<open>a\<close> still has an owner, the next
  \<^verbatim>\<open>get()\<close> returns a pointer to \<open>a\<close>, only adds one owner to it, allocates
  nothing and adds no event: the constructor does not run.
\<close>

theorem shared_instance_reused:
  assumes "w = run cfg acts process_start"
  shows "(\<forall>b c. live w b \<and> live w c \<longrightarrow> b = c) \<and>
         (\<forall>a. 0 < use_count w a \<longrightarrow>
            fst (get cfg en w) = Inr (Some a) \<and>
            snd (get cfg en w) =
              w\<lparr>heap := (heap w)[a := (heap w ! a)\<lparr>strong := Suc (strong (heap w ! a))\<rparr>]\<rparr> \<and>
            trace (snd (get cfg en w)) = trace w \<and>
            length (heap (snd (get cfg en w))) = length (heap w) \<and>
            (\<forall>b. live (snd (get cfg en w)) b \<longleftrightarrow> b = a))"
proof -
  have ok: "registry_ok w" unfolding assms by (rule registry_ok_run [OF registry_ok_start])
  have one: "\<forall>b c. live w b \<and> live w c \<longrightarrow> b = c"
  proof (intro allI impI)
    fix b c assume "live w b \<and> live w c"
    with registry_ok_live [OF ok] have "instance_weak w = Some b" "instance_weak w = Some c" by auto
    then show "b = c" by simp
  qed
  have reuse: "\<forall>a. 0 < use_count w a \<longrightarrow>
            fst (get cfg en w) = Inr (Some a) \<and>
            snd (get cfg en w) =
              w\<lparr>heap := (heap w)[a := (heap w ! a)\<lparr>strong := Suc (strong (heap w ! a))\<rparr>]\<rparr> \<and>
            trace (snd (get cfg en w)) = trace w \<and>
            length (heap (snd (get cfg en w))) = length (heap w) \<and>
            (\<forall>b. live (snd (get cfg en w)) b \<longleftrightarrow> b = a)"
  proof (intro allI impI)
    fix a assume u: "0 < use_count w a"
    let ?w' = "w\<lparr>heap := (heap w)[a := (heap w ! a)\<lparr>strong := Suc (strong (heap w ! a))\<rparr>]\<rparr>"
    have g: "get cfg en w = (Inr (Some a), ?w')" by (rule get_reuses [OF ok u])
    have ok': "registry_ok ?w'" by (rule registry_ok_bump [OF ok u])
    have i': "instance_weak ?w' = Some a" using registry_ok_live(2) [OF ok u] by simp
    have u': "0 < use_count ?w' a" using u by (simp add: use_count_pos)
    have "\<forall>b. live ?w' b \<longleftrightarrow> b = a"
    proof
      fix b show "live ?w' b \<longleftrightarrow> b = a"
      proof
        assume "live ?w' b"
        with registry_ok_live [OF ok'] have "instance_weak ?w' = Some b" by blast
        with i' show "b = a" by simp
      next
        assume "b = a"
        with u' registry_ok_live(1) [OF ok'] show "live ?w' b" by blast
      qed
    qed
    with g show "fst (get cfg en w) = Inr (Some a) \<and>
            snd (get cfg en w) = ?w' \<and>
            trace (snd (get cfg en w)) = trace w \<and>
            length (heap (snd (get cfg en w))) = length (heap w) \<and>
            (\<forall>b. live (snd (get cfg en w)) b \<longleftrightarrow> b = a)"
      by simp
  qed
  from one reuse show ?thesis by (rule conjI)
qed

theorem shared_instance_reused_witness:
  "fst (get linux (driver_with all_present) process_start) = Inr (Some 0) \<and>
   fst (get linux no_library (run linux [Get (driver_with all_present)] process_start)) = Inr (Some 0) \<and>
   trace (snd (get linux no_library (run linux [Get (driver_with all_present)] process_start))) =
     trace (run linux [Get (driver_with all_present)] process_start) \<and>
   live (run linux [Get (driver_with all_present)] process_start) 0"
proof -
  let ?w = "run linux [Get (driver_with all_present)] process_start"
  have w: "?w = \<lparr>heap = [\<lparr>strong = 1, object = Some (driver_handle linux all_present)\<rparr>],
       instance_weak = Some 0, trace = fst (cuda_ctor linux (driver_with all_present) 0)\<rparr>"
    by (simp add: first_get)
  have u: "0 < use_count ?w 0" unfolding w by (simp add: use_count_def)
  have l: "live ?w 0" unfolding w by (simp add: live_def)
  from shared_instance_reused [OF refl, of linux "[Get (driver_with all_present)]" no_library] u
  have "fst (get linux no_library ?w) = Inr (Some 0) \<and> trace (snd (get linux no_library ?w)) = trace ?w"
    by blast
  with l show ?thesis by (simp add: first_get)
qed

text \<open>
  Claim C5.  Let \<^verbatim>\<open>get()\<close> run the constructor (the static \<^verbatim>\<open>instance\<close> is
  expired) in an environment where the library does not open or a required symbol does not
  resolve.  Then the call ends in the constructor's exception; the process is as before
  but for the events of the failed run, so \<^verbatim>\<open>instance\<close> and the allocations are
  unchanged and \<^verbatim>\<open>instance\<close> is still expired; and the next call, in any
  environment, runs the constructor again and returns what that run gives.
\<close>

theorem failed_construction_leaves_registry:
  assumes "expired w"
    and "library_load en (ST_CUDA_NAME cfg) = None \<or>
         (\<exists>lib. library_load en (ST_CUDA_NAME cfg) = Some lib \<and> \<not> resolves lib (constructor_table cfg))"
  shows "\<exists>e evs.
      cuda_ctor cfg en (length (heap w)) = (evs, Inl e) \<and>
      (e = Library_load_failed \<or> (\<exists>N. e = Runtime_error (failed_to_load cfg N))) \<and>
      get cfg en w = (Inl e, w\<lparr>trace := trace w @ evs\<rparr>) \<and>
      instance_weak (snd (get cfg en w)) = instance_weak w \<and>
      heap (snd (get cfg en w)) = heap w \<and>
      expired (snd (get cfg en w)) \<and>
      (\<forall>en'. get cfg en' (snd (get cfg en w)) =
         (case cuda_ctor cfg en' (length (heap w)) of
            (evs', Inl e') \<Rightarrow> (Inl e', w\<lparr>trace := trace w @ evs @ evs'\<rparr>)
          | (evs', Inr obj) \<Rightarrow>
              (Inr (Some (length (heap w))),
               w\<lparr>heap := heap w @ [\<lparr>strong = 1, object = Some obj\<rparr>],
                 instance_weak := Some (length (heap w)),
                 trace := trace w @ evs @ evs'\<rparr>)))"
proof -
  obtain evs r where c: "cuda_ctor cfg en (length (heap w)) = (evs, r)"
    by (cases "cuda_ctor cfg en (length (heap w))")
  have "\<exists>e. r = Inl e \<and> (e = Library_load_failed \<or> (\<exists>N. e = Runtime_error (failed_to_load cfg N)))"
  proof -
    from assms(2) show ?thesis
    proof
      assume "library_load en (ST_CUDA_NAME cfg) = None"
      with c ctor_snd [of cfg en "length (heap w)"] show ?thesis by simp
    next
      assume "\<exists>lib. library_load en (ST_CUDA_NAME cfg) = Some lib \<and> \<not> resolves lib (constructor_table cfg)"
      then obtain lib where l: "library_load en (ST_CUDA_NAME cfg) = Some lib"
        and nr: "\<not> resolves lib (constructor_table cfg)" by blast
      from nr obtain e where fm: "first_missing cfg lib (constructor_table cfg) = Some e"
        using first_missing_None [of cfg lib "constructor_table cfg"]
        by (cases "first_missing cfg lib (constructor_table cfg)") auto
      from first_missing_Some [OF fm] have "\<exists>N. e = Runtime_error (failed_to_load cfg N)" by blast
      with c l fm ctor_snd [of cfg en "length (heap w)"] show ?thesis by simp
    qed
  qed
  then obtain e where r: "r = Inl e"
    and e: "e = Library_load_failed \<or> (\<exists>N. e = Runtime_error (failed_to_load cfg N))" by blast
  let ?w' = "w\<lparr>trace := trace w @ evs\<rparr>"
  have g: "get cfg en w = (Inl e, ?w')" using c r by (simp add: get_constructs [OF assms(1)])
  have x: "expired ?w'" using assms(1) by (auto simp: expired_def use_count_def split: option.splits if_splits)
  have retry: "\<forall>en'. get cfg en' ?w' =
         (case cuda_ctor cfg en' (length (heap w)) of
            (evs', Inl e') \<Rightarrow> (Inl e', w\<lparr>trace := trace w @ evs @ evs'\<rparr>)
          | (evs', Inr obj) \<Rightarrow>
              (Inr (Some (length (heap w))),
               w\<lparr>heap := heap w @ [\<lparr>strong = 1, object = Some obj\<rparr>],
                 instance_weak := Some (length (heap w)),
                 trace := trace w @ evs @ evs'\<rparr>))"
    by (simp add: get_constructs [OF x] split: prod.splits sum.splits)
  from c r e g x retry show ?thesis by simp
qed

theorem failed_construction_leaves_registry_witness:
  "get linux no_library process_start =
     (Inl Library_load_failed, process_start\<lparr>trace := prologue linux 0\<rparr>) \<and>
   fst (get linux (driver_with all_present) (snd (get linux no_library process_start))) = Inr (Some 0) \<and>
   (\<exists>N. fst (get linux (driver_with (missing ''cuMemAlloc_v2'')) process_start) =
      Inl (Runtime_error (failed_to_load linux N))) \<and>
   fst (get linux (driver_with all_present)
      (snd (get linux (driver_with (missing ''cuMemAlloc_v2'')) process_start))) = Inr (Some 0)"
proof -
  have n: "library_load no_library (ST_CUDA_NAME linux) = None \<or>
         (\<exists>lib. library_load no_library (ST_CUDA_NAME linux) = Some lib \<and> \<not> resolves lib (constructor_table linux))"
    by (simp add: no_library_def)
  have c0: "cuda_ctor linux no_library 0 = (prologue linux 0, Inl Library_load_failed)"
    by (rule ctor_no_library) (simp add: no_library_def)
  have ok: "cuda_ctor linux (driver_with all_present) 0 =
      (fst (cuda_ctor linux (driver_with all_present) 0), Inr (driver_handle linux all_present))"
    by (simp add: ctor_ready [OF driver_with_load all_present_resolves])
  have len: "length (heap process_start) = 0" by (simp add: process_start_def)
  from failed_construction_leaves_registry [OF expired_start n] obtain e evs where
    a: "cuda_ctor linux no_library (length (heap process_start)) = (evs, Inl e)"
    "get linux no_library process_start = (Inl e, process_start\<lparr>trace := trace process_start @ evs\<rparr>)"
    "\<forall>en'. get linux en' (snd (get linux no_library process_start)) =
         (case cuda_ctor linux en' (length (heap process_start)) of
            (evs', Inl e') \<Rightarrow> (Inl e', process_start\<lparr>trace := trace process_start @ evs @ evs'\<rparr>)
          | (evs', Inr obj) \<Rightarrow>
              (Inr (Some (length (heap process_start))),
               process_start\<lparr>heap := heap process_start @ [\<lparr>strong = 1, object = Some obj\<rparr>],
                 instance_weak := Some (length (heap process_start)),
                 trace := trace process_start @ evs @ evs'\<rparr>))"
    by blast
  from a(1) c0 len have ev: "evs = prologue linux 0" "e = Library_load_failed" by simp_all
  have 1: "get linux no_library process_start =
     (Inl Library_load_failed, process_start\<lparr>trace := prologue linux 0\<rparr>)"
    using a(2) ev by (simp add: process_start_def)
  have 2: "fst (get linux (driver_with all_present) (snd (get linux no_library process_start))) = Inr (Some 0)"
    using a(3) [rule_format, of "driver_with all_present"] ok len
    by (simp split: prod.splits)
  have m: "library_load (driver_with (missing ''cuMemAlloc_v2'')) (ST_CUDA_NAME linux) = None \<or>
         (\<exists>lib. library_load (driver_with (missing ''cuMemAlloc_v2'')) (ST_CUDA_NAME linux) = Some lib \<and>
            \<not> resolves lib (constructor_table linux))"
  proof -
    have "\<not> resolves (missing ''cuMemAlloc_v2'') (constructor_table linux)"
      using in_table_linux(1)
      by (auto simp: resolves_def list_all_iff required_def symbol_name_def versioned_def missing_def)
    with driver_with_load show ?thesis by blast
  qed
  let ?en = "driver_with (missing ''cuMemAlloc_v2'')"
  from failed_construction_leaves_registry [OF expired_start m] obtain e2 evs2 where
    b: "e2 = Library_load_failed \<or> (\<exists>N. e2 = Runtime_error (failed_to_load linux N))"
    "cuda_ctor linux ?en (length (heap process_start)) = (evs2, Inl e2)"
    "get linux ?en process_start = (Inl e2, process_start\<lparr>trace := trace process_start @ evs2\<rparr>)"
    "\<forall>en'. get linux en' (snd (get linux ?en process_start)) =
         (case cuda_ctor linux en' (length (heap process_start)) of
            (evs', Inl e') \<Rightarrow> (Inl e', process_start\<lparr>trace := trace process_start @ evs2 @ evs'\<rparr>)
          | (evs', Inr obj) \<Rightarrow>
              (Inr (Some (length (heap process_start))),
               process_start\<lparr>heap := heap process_start @ [\<lparr>strong = 1, object = Some obj\<rparr>],
                 instance_weak := Some (length (heap process_start)),
                 trace := trace process_start @ evs2 @ evs'\<rparr>))"
    by blast
  have "e2 \<noteq> Library_load_failed"
  proof
    assume "e2 = Library_load_failed"
    with b(2) ctor_snd [of linux ?en 0] len
    have "first_missing linux (missing ''cuMemAlloc_v2'') (constructor_table linux) = Some Library_load_failed"
      by (auto simp: driver_with_load split: option.splits)
    from first_missing_Some [OF this] show False by blast
  qed
  with b(1,3) have 3: "\<exists>N. fst (get linux ?en process_start) = Inl (Runtime_error (failed_to_load linux N))"
    by auto
  have 4: "fst (get linux (driver_with all_present) (snd (get linux ?en process_start))) = Inr (Some 0)"
    using b(4) [rule_format, of "driver_with all_present"] ok len
    by (simp split: prod.splits)
  from 1 2 3 4 show ?thesis by blast
qed

end
